theory Spec2Isabelle
  imports Complex_Main "HOL-Library.Extended_Nat"
begin

chapter \<open>The model\<close>

section \<open>Messaging-limit tracker (src/state/messagingLimits.ts)\<close>

text \<open>
  Conventions of the embedding.
  \<^item> Timestamps and durations are milliseconds, modelled as \<open>int\<close>. JavaScript
    numbers are doubles, which hold every integer up to \<open>2^53\<close> in magnitude; the times
    of the model stand for times from 0 to \<open>2^53\<close>, as every reading of the clock is.
    A difference \<open>now - window\<close> of such a time and a window is exact in the source.
    A sum can pass \<open>2^53\<close>; where the source adds to a timestamp, the model rounds as
    the double addition does (\<open>roundToDouble\<close> below).
  \<^item> A field \<open>f\<close> of a TypeScript interface is a record field carrying a short prefix
    of the interface (\<open>se_to\<close> is \<open>SendEvent.to\<close>, \<open>mls_sends\<close> is
    \<open>MessagingLimitState.sends\<close>), since many interfaces share field names.
  \<^item> An optional field is an \<open>option\<close>; a module-level \<open>Map\<close> is a partial function
    passed in and returned.
  \<^item> The source reads an object from a \<open>Map\<close>, assigns to its fields and ends with
    \<open>map.set(obj.id, obj)\<close>. The assignments already change the entry the object was
    read from, and every entry is created under its own id, so the model writes the
    changed record back under the key it was read from.
  \<^item> \<open>params.now ?? Date.now()\<close> is the argument \<open>now\<close> of the model: the caller
    supplies the reading of the clock.
  \<^item> Costs are JavaScript doubles in the source; they are exact rationals here, and no
    statement below depends on the cost arithmetic.
\<close>

datatype MessagingLimitTier = TIER_250 | TIER_1K | TIER_10K | TIER_100K | TIER_UNLIMITED

datatype TemplateCategory = MARKETING | UTILITY | AUTHENTICATION | UNKNOWN

type_synonym ConversationCategory = TemplateCategory

record SendEvent =
  se_to :: string
  se_category :: ConversationCategory
  se_timestamp :: int
  se_costUsd :: rat

record MessagingLimitState =
  mls_phoneId :: string
  mls_tier :: MessagingLimitTier
  mls_windowMs :: int
  mls_sends :: "SendEvent list"
  mls_totalCostUsd :: rat

definition DEFAULT_WINDOW_MS :: int where
  "DEFAULT_WINDOW_MS = 24 * 60 * 60 * 1000"

fun CATEGORY_COST :: "ConversationCategory \<Rightarrow> rat" where
  "CATEGORY_COST MARKETING = 5 / 100"
| "CATEGORY_COST UTILITY = 3 / 100"
| "CATEGORY_COST AUTHENTICATION = 2 / 100"
| "CATEGORY_COST UNKNOWN = 25 / 1000"

fun TIER_LIMITS :: "MessagingLimitTier \<Rightarrow> enat" where
  "TIER_LIMITS TIER_250 = 250"
| "TIER_LIMITS TIER_1K = 1000"
| "TIER_LIMITS TIER_10K = 10000"
| "TIER_LIMITS TIER_100K = 100000"
| "TIER_LIMITS TIER_UNLIMITED = \<infinity>"

type_synonym LimitStates = "string \<rightharpoonup> MessagingLimitState"

text \<open>
  \<open>getOrCreateState\<close>: the stored state, or a fresh TIER_1K state that is stored
  under the number. Every entry of the map is created here, so the state under key
  \<open>k\<close> has \<open>phoneId = k\<close>, and the source's \<open>states.set(state.phoneId, state)\<close> writes
  the entry the state was read from.
\<close>

definition getOrCreateState :: "LimitStates \<Rightarrow> string \<Rightarrow> MessagingLimitState \<times> LimitStates" where
  "getOrCreateState states phoneId =
     (case states phoneId of
        Some existing \<Rightarrow> (existing, states)
      | None \<Rightarrow>
          (let fresh = \<lparr>mls_phoneId = phoneId, mls_tier = TIER_1K,
                         mls_windowMs = DEFAULT_WINDOW_MS, mls_sends = [],
                         mls_totalCostUsd = 0\<rparr>
           in (fresh, states(phoneId \<mapsto> fresh))))"

record MessagingLimitEvaluation =
  mle_allowed :: bool
  mle_reason :: "string option"
  mle_tier :: MessagingLimitTier
  mle_windowUniqueRecipients :: nat
  mle_limitUniqueRecipients :: enat

text \<open>The events of a sequence that are not older than the window ending at \<open>now\<close>.\<close>

definition pruneSends :: "int \<Rightarrow> int \<Rightarrow> SendEvent list \<Rightarrow> SendEvent list" where
  "pruneSends now windowMs evs = filter (\<lambda>e. se_timestamp e \<ge> now - windowMs) evs"

text \<open>
  \<open>evaluateMessagingLimit\<close>: prunes the stored sequence (the assignment to
  \<open>state.sends\<close> mutates the stored object), then decides on the set of distinct
  recipients.
\<close>

definition evaluateMessagingLimit ::
  "LimitStates \<Rightarrow> string \<Rightarrow> string \<Rightarrow> int \<Rightarrow> MessagingLimitEvaluation \<times> LimitStates" where
  "evaluateMessagingLimit states phoneId to now =
     (let (state0, states1) = getOrCreateState states phoneId;
          state = state0\<lparr>mls_sends := pruneSends now (mls_windowMs state0) (mls_sends state0)\<rparr>;
          states2 = states1(phoneId \<mapsto> state);
          uniqueRecipients = set (map se_to (mls_sends state));
          limit = TIER_LIMITS (mls_tier state)
      in if to \<notin> uniqueRecipients \<and> enat (card uniqueRecipients) \<ge> limit
         then (\<lparr>mle_allowed = False,
                 mle_reason = Some ''messaging_limit_reached_for_this_phone_number_in_current_24h_window'',
                 mle_tier = mls_tier state,
                 mle_windowUniqueRecipients = card uniqueRecipients,
                 mle_limitUniqueRecipients = limit\<rparr>, states2)
         else (\<lparr>mle_allowed = True,
                 mle_reason = None,
                 mle_tier = mls_tier state,
                 mle_windowUniqueRecipients = card uniqueRecipients,
                 mle_limitUniqueRecipients = limit\<rparr>, states2))"

text \<open>
  \<open>registerSend\<close>: appends the event and accrues its cost; there is no check and
  no pruning. It returns the event, the state and the updated map.
\<close>

definition registerSend ::
  "LimitStates \<Rightarrow> string \<Rightarrow> string \<Rightarrow> ConversationCategory \<Rightarrow> int
     \<Rightarrow> SendEvent \<times> MessagingLimitState \<times> LimitStates" where
  "registerSend states phoneId to category now =
     (let (state0, states1) = getOrCreateState states phoneId;
          cost = CATEGORY_COST category;
          event = \<lparr>se_to = to, se_category = category, se_timestamp = now, se_costUsd = cost\<rparr>;
          state = state0\<lparr>mls_sends := mls_sends state0 @ [event],
                          mls_totalCostUsd := mls_totalCostUsd state0 + cost\<rparr>
      in (event, state, states1(phoneId \<mapsto> state)))"

record MessagingLimitSummary =
  sum_phoneId :: string
  sum_tier :: MessagingLimitTier
  sum_windowMs :: int
  sum_windowUniqueRecipients :: nat
  sum_limitUniqueRecipients :: enat
  sum_totalCostUsd :: rat

text \<open>
  \<open>getMessagingSummaryForPhone\<close>: filters into a local array; the stored sequence
  is left as it is (only a missing state is created).
\<close>

definition getMessagingSummaryForPhone ::
  "LimitStates \<Rightarrow> string \<Rightarrow> int \<Rightarrow> MessagingLimitSummary \<times> LimitStates" where
  "getMessagingSummaryForPhone states phoneId now =
     (let (state, states1) = getOrCreateState states phoneId;
          recent = pruneSends now (mls_windowMs state) (mls_sends state);
          uniqueRecipients = set (map se_to recent)
      in (\<lparr>sum_phoneId = phoneId, sum_tier = mls_tier state, sum_windowMs = mls_windowMs state,
            sum_windowUniqueRecipients = card uniqueRecipients,
            sum_limitUniqueRecipients = TIER_LIMITS (mls_tier state),
            sum_totalCostUsd = mls_totalCostUsd state\<rparr>, states1))"

definition setMessagingTier :: "LimitStates \<Rightarrow> string \<Rightarrow> MessagingLimitTier \<Rightarrow> LimitStates" where
  "setMessagingTier states phoneId tier =
     (let (state, states1) = getOrCreateState states phoneId
      in states1(phoneId \<mapsto> state\<lparr>mls_tier := tier\<rparr>))"

text \<open>
  What the window ending at \<open>now\<close> means for a state, stated on the stored events and
  not through the function the source prunes with: an event is inside the window when it
  is not older than \<open>now - windowMs\<close>; \<open>windowSends\<close> are those events in the order
  stored, \<open>windowRecipients\<close> their distinct recipients.
\<close>

definition insideWindow :: "MessagingLimitState \<Rightarrow> int \<Rightarrow> SendEvent \<Rightarrow> bool" where
  "insideWindow state now e = (now - mls_windowMs state \<le> se_timestamp e)"

fun windowSends :: "MessagingLimitState \<Rightarrow> int \<Rightarrow> SendEvent list \<Rightarrow> SendEvent list" where
  "windowSends state now [] = []"
| "windowSends state now (e # later) =
     (if insideWindow state now e then e # windowSends state now later
      else windowSends state now later)"

definition windowRecipients :: "MessagingLimitState \<Rightarrow> int \<Rightarrow> string set" where
  "windowRecipients state now = set (map se_to (windowSends state now (mls_sends state)))"

text \<open>
  The quota invariant of one number: the distinct recipients of all stored events are
  within the tier's limit.
\<close>

definition stateWithinLimit :: "MessagingLimitState \<Rightarrow> bool" where
  "stateWithinLimit state =
     (enat (card (set (map se_to (mls_sends state)))) \<le> TIER_LIMITS (mls_tier state))"

text \<open>
  Runs of the tracker as the send routes drive it: \<open>Evaluate\<close> is an evaluation
  alone, \<open>GuardedSend\<close> evaluates and registers the send only when the evaluation
  allowed it (each call with its own reading of the clock), \<open>Summary\<close> reads the summary.
\<close>

datatype LimitOp =
    Evaluate string string int
  | GuardedSend string string ConversationCategory int int
  | Summary string int

fun applyLimitOp :: "LimitStates \<Rightarrow> LimitOp \<Rightarrow> LimitStates" where
  "applyLimitOp states (Evaluate phoneId to now) =
     snd (evaluateMessagingLimit states phoneId to now)"
| "applyLimitOp states (GuardedSend phoneId to category nowEval nowSend) =
     (let (evaluation, states1) = evaluateMessagingLimit states phoneId to nowEval
      in if mle_allowed evaluation
         then snd (snd (registerSend states1 phoneId to category nowSend))
         else states1)"
| "applyLimitOp states (Summary phoneId now) =
     snd (getMessagingSummaryForPhone states phoneId now)"

definition runLimitOps :: "LimitStates \<Rightarrow> LimitOp list \<Rightarrow> LimitStates" where
  "runLimitOps states ops = foldl applyLimitOp states ops"

text \<open>
  Test data: number \<open>A\<close> at TIER_250 with \<open>n\<close> distinct recipients at time 0; and
  the same number with \<open>n\<close> distinct recipients at 100000000 after an older event, at
  time 0, to one more recipient (a day is 86400000).
\<close>

definition recipientNo :: "nat \<Rightarrow> string" where
  "recipientNo k = replicate (Suc k) (CHR ''7'')"

definition scenarioSends :: "nat \<Rightarrow> SendEvent list" where
  "scenarioSends n =
     map (\<lambda>k. \<lparr>se_to = recipientNo k, se_category = UTILITY, se_timestamp = 0,
                se_costUsd = CATEGORY_COST UTILITY\<rparr>) [0..<n]"

definition scenarioState :: "nat \<Rightarrow> MessagingLimitState" where
  "scenarioState n =
     \<lparr>mls_phoneId = ''A'', mls_tier = TIER_250, mls_windowMs = DEFAULT_WINDOW_MS,
      mls_sends = scenarioSends n, mls_totalCostUsd = of_nat n * CATEGORY_COST UTILITY\<rparr>"

definition scenarioStates :: "nat \<Rightarrow> LimitStates" where
  "scenarioStates n = Map.empty(''A'' \<mapsto> scenarioState n)"

definition agedSends :: "nat \<Rightarrow> SendEvent list" where
  "agedSends n =
     \<lparr>se_to = recipientNo n, se_category = MARKETING, se_timestamp = 0,
      se_costUsd = CATEGORY_COST MARKETING\<rparr>
     # map (\<lambda>k. \<lparr>se_to = recipientNo k, se_category = UTILITY, se_timestamp = 100000000,
                    se_costUsd = CATEGORY_COST UTILITY\<rparr>) [0..<n]"

definition agedStates :: "nat \<Rightarrow> LimitStates" where
  "agedStates n =
     Map.empty(''A'' \<mapsto>
       \<lparr>mls_phoneId = ''A'', mls_tier = TIER_250, mls_windowMs = DEFAULT_WINDOW_MS,
        mls_sends = agedSends n,
        mls_totalCostUsd = CATEGORY_COST MARKETING + of_nat n * CATEGORY_COST UTILITY\<rparr>)"

definition scenarioOps :: "LimitOp list" where
  "scenarioOps =
     [GuardedSend ''A'' ''551'' MARKETING 10 11, GuardedSend ''A'' ''552'' UTILITY 20 21,
      Evaluate ''A'' ''553'' 30, GuardedSend ''A'' ''551'' UTILITY 40 41, Summary ''A'' 50]"

section \<open>Marketing store (src/state/marketing.ts)\<close>

datatype MarketingOptInStatus = opted_in | opted_out | unknown

record MarketingContact =
  mc_waId :: string
  mc_status :: MarketingOptInStatus
  mc_source :: "string option"
  mc_note :: "string option"
  mc_updatedAt :: int

record MarketingEligibility =
  me_waId :: string
  me_status :: MarketingOptInStatus
  me_allowed :: bool
  me_reason :: string
  me_contact :: "MarketingContact option"

record MarketingSendRecord =
  msr_id :: string
  msr_phoneId :: string
  msr_to :: string
  msr_templateName :: "string option"
  msr_languageCode :: "string option"
  msr_category :: TemplateCategory
  msr_sendTimestamp :: int
  msr_scheduledFor :: "int option"

record MarketingFrequencyEvaluation =
  mfe_allowed :: bool
  mfe_reason :: "string option"
  mfe_windowMs :: int
  mfe_sendsInWindow :: nat
  mfe_maxSends :: int

record MarketingConfigState =
  frequencyWindowMs :: int
  maxSendsPerWindow :: int
  requireOptIn :: bool

text \<open>
  The module's state: the contact registry, the capped ledger of sends, the frequency
  buckets and the configuration. (The conversion ledger takes no part in the functions
  modelled here.)
\<close>

record MarketingStore =
  contacts :: "string \<rightharpoonup> MarketingContact"
  sends :: "MarketingSendRecord list"
  frequencyBuckets :: "string \<rightharpoonup> MarketingSendRecord list"
  config :: MarketingConfigState

definition initialMarketingConfig :: MarketingConfigState where
  "initialMarketingConfig =
     \<lparr>frequencyWindowMs = 24 * 60 * 60 * 1000, maxSendsPerWindow = 1, requireOptIn = True\<rparr>"

definition initialMarketingStore :: MarketingStore where
  "initialMarketingStore =
     \<lparr>contacts = Map.empty, sends = [], frequencyBuckets = Map.empty,
      config = initialMarketingConfig\<rparr>"

definition getFrequencyKey :: "string \<Rightarrow> string \<Rightarrow> string" where
  "getFrequencyKey phoneId to = phoneId @ ''__'' @ to"

definition evaluateMarketingEligibility :: "MarketingStore \<Rightarrow> string \<Rightarrow> MarketingEligibility" where
  "evaluateMarketingEligibility store waId =
     (case contacts store waId of
        None \<Rightarrow>
          \<lparr>me_waId = waId, me_status = unknown,
           me_allowed = (\<not> requireOptIn (config store)),
           me_reason = (if requireOptIn (config store) then ''marketing_opt_in_required''
                        else ''no_marketing_opt_status__treated_as_allowed''),
           me_contact = None\<rparr>
      | Some contact \<Rightarrow>
          if mc_status contact = opted_out then
            \<lparr>me_waId = waId, me_status = mc_status contact, me_allowed = False,
             me_reason = ''contact_opted_out_of_marketing_messages'',
             me_contact = Some contact\<rparr>
          else if mc_status contact = opted_in then
            \<lparr>me_waId = waId, me_status = mc_status contact, me_allowed = True,
             me_reason = ''contact_opted_in_for_marketing_messages'',
             me_contact = Some contact\<rparr>
          else
            \<lparr>me_waId = waId, me_status = mc_status contact,
             me_allowed = (\<not> requireOptIn (config store)),
             me_reason = (if requireOptIn (config store) then ''marketing_opt_in_required''
                          else ''contact_marketing_status_unknown__treated_as_allowed''),
             me_contact = Some contact\<rparr>)"

text \<open>The time a record counts at: \<open>s.scheduledFor ?? s.sendTimestamp\<close>.\<close>

definition effectiveTime :: "MarketingSendRecord \<Rightarrow> int" where
  "effectiveTime s = (case msr_scheduledFor s of Some t \<Rightarrow> t | None \<Rightarrow> msr_sendTimestamp s)"

text \<open>
  \<open>evaluateMarketingFrequency\<close> reads the bucket and filters a local copy; it writes
  nothing, so it returns the evaluation alone.
\<close>

definition evaluateMarketingFrequency ::
  "MarketingStore \<Rightarrow> string \<Rightarrow> string \<Rightarrow> int \<Rightarrow> MarketingFrequencyEvaluation" where
  "evaluateMarketingFrequency store phoneId to now =
     (let key = getFrequencyKey phoneId to;
          windowStart = now - frequencyWindowMs (config store);
          history = (case frequencyBuckets store key of Some h \<Rightarrow> h | None \<Rightarrow> []);
          recent = filter (\<lambda>s. effectiveTime s \<ge> windowStart) history;
          allowed = (int (length recent) < maxSendsPerWindow (config store))
      in \<lparr>mfe_allowed = allowed,
          mfe_reason = Some (if allowed then ''within_frequency_cap''
                             else ''marketing_frequency_cap_hit''),
          mfe_windowMs = frequencyWindowMs (config store),
          mfe_sendsInWindow = length recent,
          mfe_maxSends = maxSendsPerWindow (config store)\<rparr>)"

text \<open>Decimal rendering of a timestamp inside a generated identifier.\<close>

function decimalDigits :: "int \<Rightarrow> string" where
  "decimalDigits i =
     (if i < 10 then [char_of (48 + i)]
      else decimalDigits (i div 10) @ [char_of (48 + i mod 10)])"
  by pat_completeness auto
termination
  by (relation "measure nat") auto

definition decimalInt :: "int \<Rightarrow> string" where
  "decimalInt i = (if i < 0 then CHR ''-'' # decimalDigits (- i) else decimalDigits i)"

record RegisterMarketingSendParams =
  rms_phoneId :: string
  rms_to :: string
  rms_templateName :: "string option"
  rms_languageCode :: "string option"
  rms_category :: "TemplateCategory option"
  rms_sendAt :: "int option"

text \<open>
  \<open>registerMarketingSend\<close>: \<open>now\<close> is the reading of \<open>Date.now()\<close> and \<open>rnd\<close> the
  six characters drawn from \<open>Math.random()\<close>. The ledger keeps its last 500 records;
  the bucket is pruned against the effective send time.
\<close>

definition registerMarketingSend ::
  "MarketingStore \<Rightarrow> RegisterMarketingSendParams \<Rightarrow> int \<Rightarrow> string
     \<Rightarrow> MarketingSendRecord \<times> MarketingStore" where
  "registerMarketingSend store params now rnd =
     (let effectiveSend = (case rms_sendAt params of Some t \<Rightarrow> t | None \<Rightarrow> now);
          record = \<lparr>msr_id = ''mkt_'' @ decimalInt now @ ''_'' @ rnd,
                    msr_phoneId = rms_phoneId params,
                    msr_to = rms_to params,
                    msr_templateName = rms_templateName params,
                    msr_languageCode = rms_languageCode params,
                    msr_category = (case rms_category params of Some c \<Rightarrow> c | None \<Rightarrow> MARKETING),
                    msr_sendTimestamp = now,
                    msr_scheduledFor = rms_sendAt params\<rparr>;
          sends1 = sends store @ [record];
          sends2 = (if length sends1 > 500 then drop (length sends1 - 500) sends1 else sends1);
          key = getFrequencyKey (rms_phoneId params) (rms_to params);
          existing = (case frequencyBuckets store key of Some h \<Rightarrow> h | None \<Rightarrow> []) @ [record];
          cutoff = effectiveSend - frequencyWindowMs (config store);
          pruned = filter (\<lambda>r. effectiveTime r \<ge> cutoff) existing
      in (record, store\<lparr>sends := sends2, frequencyBuckets := (frequencyBuckets store)(key \<mapsto> pruned)\<rparr>))"




text \<open>The bucket of a pair, \<open>frequencyBuckets.get(key) ?? []\<close>.\<close>

definition bucketOf :: "MarketingStore \<Rightarrow> string \<Rightarrow> string \<Rightarrow> MarketingSendRecord list" where
  "bucketOf store phoneId to =
     (case frequencyBuckets store (getFrequencyKey phoneId to) of Some h \<Rightarrow> h | None \<Rightarrow> [])"

text \<open>
  Two ways of counting a bucket at \<open>now\<close>: the records not older than the window (what
  the source's filter keeps), and the records inside the closed interval
  \<open>[now - window, now]\<close> (the wording of the specification).
\<close>

definition sendsNotOlderThanWindow :: "MarketingStore \<Rightarrow> string \<Rightarrow> string \<Rightarrow> int \<Rightarrow> nat" where
  "sendsNotOlderThanWindow store phoneId to now =
     length (filter (\<lambda>s. now - frequencyWindowMs (config store) \<le> effectiveTime s)
               (bucketOf store phoneId to))"






text \<open>Test data for the marketing store.\<close>

definition sendParams :: "string \<Rightarrow> string \<Rightarrow> int option \<Rightarrow> RegisterMarketingSendParams" where
  "sendParams phoneId to sendAt =
     \<lparr>rms_phoneId = phoneId, rms_to = to, rms_templateName = Some ''promo'',
      rms_languageCode = None, rms_category = None, rms_sendAt = sendAt\<rparr>"






section \<open>Runtime configuration (src/config.ts)\<close>

datatype AuthMode = auth_none | auth_jwt

record AuthConfig =
  auth_mode :: AuthMode
  auth_jwtSecret :: string
  auth_jwtIssuer :: string
  auth_jwtAudience :: string

text \<open>\<open>null\<close> and \<open>undefined\<close> are both \<open>None\<close>.\<close>

record RuntimeConfig =
  rc_verifyToken :: string
  rc_targetWebhookUrl :: "string option"
  rc_auth :: AuthConfig
  rc_webhookAppSecret :: "string option"

text \<open>The initial configuration; \<open>envSecret\<close> is \<open>process.env.WHATSAPP_APP_SECRET\<close>.\<close>

definition runtimeConfig :: "string option \<Rightarrow> RuntimeConfig" where
  "runtimeConfig envSecret =
     \<lparr>rc_verifyToken = ''sandbox-verify-token'', rc_targetWebhookUrl = None,
      rc_auth = \<lparr>auth_mode = auth_none, auth_jwtSecret = ''sandbox-secret'',
                  auth_jwtIssuer = ''waba-sandbox'', auth_jwtAudience = ''sandbox-client''\<rparr>,
      rc_webhookAppSecret = envSecret\<rparr>"

section \<open>Phone lifecycle and webhook routing (src/state/webhookRouting.ts)\<close>

record WabaOverrideConfig =
  waba_wabaId :: string
  waba_overrideCallbackUri :: "string option"
  waba_verifyToken :: "string option"

record PhoneWebhookConfiguration =
  pwc_overrideCallbackUri :: "string option"
  pwc_verifyToken :: "string option"

record ConversationalCommand =
  command_name :: string
  command_description :: string

record ConversationalAutomationConfig =
  enable_welcome_message :: "bool option"
  commands :: "ConversationalCommand list option"
  prompts :: "string list option"

datatype PhoneQualityRating = GREEN | YELLOW | RED | RATING_UNKNOWN | NA

datatype PhoneVerificationStatus = UNVERIFIED | PENDING | VERIFIED

datatype PhoneAccountMode = SANDBOX | LIVE

datatype VerificationMethod = SMS | VOICE

record PendingPhoneVerificationCode =
  pvc_code :: string
  pvc_method :: VerificationMethod
  pvc_language :: string
  pvc_requestedAt :: int

record PhoneNumberConfig =
  pn_id :: string
  pn_displayPhoneNumber :: string
  pn_wabaId :: "string option"
  pn_webhookConfiguration :: "PhoneWebhookConfiguration option"
  pn_verifiedName :: "string option"
  pn_qualityRating :: "PhoneQualityRating option"
  pn_verificationStatus :: PhoneVerificationStatus
  pn_pendingVerificationCode :: "PendingPhoneVerificationCode option"
  pn_twoStepVerificationPin :: "string option"
  pn_accountMode :: "PhoneAccountMode option"
  pn_lastOnboardedTime :: "int option"
  pn_identityKeyCheckEnabled :: "bool option"
  pn_registered :: "bool option"
  pn_dataLocalizationRegion :: "string option"
  pn_registerRequests :: "int list option"
  pn_deregisterRequests :: "int list option"
  pn_conversationalAutomation :: "ConversationalAutomationConfig option"

type_synonym Wabas = "string \<rightharpoonup> WabaOverrideConfig"
type_synonym PhoneNumbers = "string \<rightharpoonup> PhoneNumberConfig"

definition REQUEST_WINDOW_MS :: int where
  "REQUEST_WINDOW_MS = 72 * 60 * 60 * 1000"

definition REQUEST_LIMIT :: nat where
  "REQUEST_LIMIT = 10"

text \<open>
  The double nearest to an integer, ties to the even significand: an integer of
  magnitude up to \<open>2^53\<close> is a double; a larger one of \<open>n\<close> bits lies between two
  neighbouring multiples of \<open>2^(n - 53)\<close>. \<open>jsAdd\<close> and \<open>jsSub\<close> are the
  source's \<open>+\<close> and \<open>-\<close> on numbers that hold integers.
\<close>

definition MAX_EXACT :: int where
  "MAX_EXACT = 2 ^ 53"

function bitLength :: "int \<Rightarrow> nat" where
  "bitLength n = (if n \<le> 0 then 0 else Suc (bitLength (n div 2)))"
  by pat_completeness auto
termination
  by (relation "measure nat") auto

declare bitLength.simps [simp del]

definition roundToDouble :: "int \<Rightarrow> int" where
  "roundToDouble x =
     (if \<bar>x\<bar> \<le> MAX_EXACT then x
      else (let q = 2 ^ (bitLength \<bar>x\<bar> - 53);
                lower = (x div q) * q
            in if 2 * (x - lower) < q then lower
               else if q < 2 * (x - lower) then lower + q
               else if even (x div q) then lower else lower + q))"

definition jsAdd :: "int \<Rightarrow> int \<Rightarrow> int" where
  "jsAdd a b = roundToDouble (a + b)"

definition jsSub :: "int \<Rightarrow> int \<Rightarrow> int" where
  "jsSub a b = roundToDouble (a - b)"

definition ensureArray :: "int list option \<Rightarrow> int list" where
  "ensureArray arr = (case arr of Some a \<Rightarrow> a | None \<Rightarrow> [])"

definition pruneWindow :: "int list \<Rightarrow> int \<Rightarrow> int list" where
  "pruneWindow timestamps now = filter (\<lambda>ts. ts \<ge> now - REQUEST_WINDOW_MS) timestamps"

text \<open>
  A string that JavaScript takes as true in a condition: present and not empty.
  \<open>truthyStr\<close> returns it, or \<open>None\<close>.
\<close>

definition truthyStr :: "string option \<Rightarrow> string option" where
  "truthyStr s = (case s of None \<Rightarrow> None | Some v \<Rightarrow> if v = [] then None else Some v)"

record UpsertWabaInput =
  uw_wabaId :: string
  uw_overrideCallbackUri :: "string option"
  uw_verifyToken :: "string option"

definition upsertWaba :: "Wabas \<Rightarrow> UpsertWabaInput \<Rightarrow> WabaOverrideConfig \<times> Wabas" where
  "upsertWaba wabas input =
     (let existing0 = (case wabas (uw_wabaId input) of
                         Some w \<Rightarrow> w
                       | None \<Rightarrow> \<lparr>waba_wabaId = uw_wabaId input, waba_overrideCallbackUri = None,
                                  waba_verifyToken = None\<rparr>);
          existing1 = (case uw_overrideCallbackUri input of
                         None \<Rightarrow> existing0
                       | Some u \<Rightarrow> existing0\<lparr>waba_overrideCallbackUri := truthyStr (Some u)\<rparr>);
          existing2 = (case uw_verifyToken input of
                         None \<Rightarrow> existing1
                       | Some t \<Rightarrow> existing1\<lparr>waba_verifyToken := truthyStr (Some t)\<rparr>)
      in (existing2, wabas(uw_wabaId input \<mapsto> existing2)))"

text \<open>
  The webhook configuration passed to an upsert is an object whose keys may be absent, or
  present and holding \<open>undefined\<close> (the route builds it from a request body that may
  lack a field): \<open>None\<close> is an absent key, \<open>Some None\<close> a key holding
  \<open>undefined\<close>.
\<close>

record WebhookConfigurationInput =
  wci_overrideCallbackUri :: "string option option"
  wci_verifyToken :: "string option option"

record UpsertPhoneNumberInput =
  up_id :: string
  up_displayPhoneNumber :: string
  up_wabaId :: "string option"
  up_webhookConfiguration :: "WebhookConfigurationInput option"
  up_verifiedName :: "string option"
  up_qualityRating :: "PhoneQualityRating option"
  up_accountMode :: "PhoneAccountMode option"

text \<open>
  Object spread \<open>{...a, ...b}\<close> of the stored configuration and the one passed: every
  key of \<open>b\<close> is copied, also one that holds \<open>undefined\<close>, and a key of \<open>a\<close>
  stays only where \<open>b\<close> has none.
\<close>

definition spreadWebhookConfiguration ::
  "PhoneWebhookConfiguration option \<Rightarrow> WebhookConfigurationInput \<Rightarrow> PhoneWebhookConfiguration" where
  "spreadWebhookConfiguration a b =
     (let a' = (case a of Some c \<Rightarrow> c
                | None \<Rightarrow> \<lparr>pwc_overrideCallbackUri = None, pwc_verifyToken = None\<rparr>)
      in \<lparr>pwc_overrideCallbackUri =
            (case wci_overrideCallbackUri b of Some v \<Rightarrow> v | None \<Rightarrow> pwc_overrideCallbackUri a'),
          pwc_verifyToken =
            (case wci_verifyToken b of Some v \<Rightarrow> v | None \<Rightarrow> pwc_verifyToken a')\<rparr>)"

text \<open>\<open>upsertPhoneNumber\<close>; \<open>now\<close> is the reading of \<open>Date.now()\<close> for a new phone.\<close>

definition upsertPhoneNumber ::
  "PhoneNumbers \<Rightarrow> UpsertPhoneNumberInput \<Rightarrow> int \<Rightarrow> PhoneNumberConfig \<times> PhoneNumbers" where
  "upsertPhoneNumber phoneNumbers input now =
     (let phone0 = (case phoneNumbers (up_id input) of
                      Some p \<Rightarrow> p
                    | None \<Rightarrow>
                        \<lparr>pn_id = up_id input,
                         pn_displayPhoneNumber = up_displayPhoneNumber input,
                         pn_wabaId = None,
                         pn_webhookConfiguration = None,
                         pn_verifiedName = None,
                         pn_qualityRating = Some NA,
                         pn_verificationStatus = UNVERIFIED,
                         pn_pendingVerificationCode = None,
                         pn_twoStepVerificationPin = None,
                         pn_accountMode = Some SANDBOX,
                         pn_lastOnboardedTime = Some now,
                         pn_identityKeyCheckEnabled = Some False,
                         pn_registered = Some False,
                         pn_dataLocalizationRegion = None,
                         pn_registerRequests = Some [],
                         pn_deregisterRequests = Some [],
                         pn_conversationalAutomation =
                           Some \<lparr>enable_welcome_message = Some False, commands = Some [],
                                  prompts = Some []\<rparr>\<rparr>);
          phone1 = phone0\<lparr>pn_displayPhoneNumber := up_displayPhoneNumber input\<rparr>;
          phone2 = (case up_wabaId input of None \<Rightarrow> phone1
                    | Some w \<Rightarrow> phone1\<lparr>pn_wabaId := Some w\<rparr>);
          phone3 = (case up_webhookConfiguration input of None \<Rightarrow> phone2
                    | Some c \<Rightarrow> phone2\<lparr>pn_webhookConfiguration :=
                                 Some (spreadWebhookConfiguration (pn_webhookConfiguration phone2) c)\<rparr>);
          phone4 = (case up_verifiedName input of None \<Rightarrow> phone3
                    | Some n \<Rightarrow> phone3\<lparr>pn_verifiedName := Some n\<rparr>);
          phone5 = (case up_qualityRating input of None \<Rightarrow> phone4
                    | Some q \<Rightarrow> phone4\<lparr>pn_qualityRating := Some q\<rparr>);
          phone6 = (case up_accountMode input of None \<Rightarrow> phone5
                    | Some m \<Rightarrow> phone5\<lparr>pn_accountMode := Some m\<rparr>)
      in (phone6, phoneNumbers(up_id input \<mapsto> phone6)))"

text \<open>
  \<open>requestPhoneVerificationCode\<close>: \<open>code\<close> is \<open>params.codeOverride\<close> or the six digits
  drawn at random, \<open>now\<close> the reading of the clock.
\<close>

definition requestPhoneVerificationCode ::
  "PhoneNumbers \<Rightarrow> string \<Rightarrow> VerificationMethod \<Rightarrow> string \<Rightarrow> string \<Rightarrow> int
     \<Rightarrow> PendingPhoneVerificationCode option \<times> PhoneNumbers" where
  "requestPhoneVerificationCode phoneNumbers ident method language code now =
     (case phoneNumbers ident of
        None \<Rightarrow> (None, phoneNumbers)
      | Some phone \<Rightarrow>
          (let pending = \<lparr>pvc_code = code, pvc_method = method, pvc_language = language,
                          pvc_requestedAt = now\<rparr>;
               phone' = phone\<lparr>pn_pendingVerificationCode := Some pending,
                              pn_verificationStatus := PENDING\<rparr>
           in (Some pending, phoneNumbers(ident \<mapsto> phone'))))"

text \<open>\<open>verifyPhoneNumberCode\<close>: a failing call returns before any assignment.\<close>

definition verifyPhoneNumberCode ::
  "PhoneNumbers \<Rightarrow> string \<Rightarrow> string \<Rightarrow> bool \<times> PhoneNumbers" where
  "verifyPhoneNumberCode phoneNumbers ident code =
     (case phoneNumbers ident of
        None \<Rightarrow> (False, phoneNumbers)
      | Some phone \<Rightarrow>
          (case pn_pendingVerificationCode phone of
             None \<Rightarrow> (False, phoneNumbers)
           | Some pending \<Rightarrow>
               if pvc_code pending \<noteq> code then (False, phoneNumbers)
               else (let phone' = phone\<lparr>pn_verificationStatus := VERIFIED,
                                         pn_pendingVerificationCode := None\<rparr>
                     in (True, phoneNumbers(ident \<mapsto> phone')))))"

datatype TargetSource = source_phone | source_waba | source_app

record ResolvedWebhookTarget =
  rt_url :: string
  rt_source :: TargetSource
  rt_phoneId :: "string option"
  rt_wabaId :: "string option"
  rt_appSecret :: "string option"

record ResolveOpts =
  opt_phoneNumberId :: "string option"
  opt_wabaId :: "string option"

text \<open>
  \<open>resolveWebhookTarget\<close>. The source returns from inside the phone branch and
  otherwise falls through to the WABA lookup by \<open>opts.wabaId\<close> and then to the global
  target; \<open>rest\<close> is that fall-through. \<open>None\<close> is the source's \<open>null\<close>.
\<close>

definition resolveWebhookTarget ::
  "RuntimeConfig \<Rightarrow> PhoneNumbers \<Rightarrow> Wabas \<Rightarrow> ResolveOpts \<Rightarrow> ResolvedWebhookTarget option" where
  "resolveWebhookTarget cfg phoneNumbers wabas opts =
     (let viaApp =
            (case truthyStr (rc_targetWebhookUrl cfg) of
               Some url \<Rightarrow>
                 Some \<lparr>rt_url = url, rt_source = source_app, rt_phoneId = None,
                       rt_wabaId = None, rt_appSecret = truthyStr (rc_webhookAppSecret cfg)\<rparr>
             | None \<Rightarrow> None);
          rest =
            (case truthyStr (opt_wabaId opts) of
               Some wid \<Rightarrow>
                 (case wabas wid of
                    Some waba \<Rightarrow>
                      (case truthyStr (waba_overrideCallbackUri waba) of
                         Some url \<Rightarrow>
                           Some \<lparr>rt_url = url, rt_source = source_waba, rt_phoneId = None,
                                 rt_wabaId = Some (waba_wabaId waba), rt_appSecret = None\<rparr>
                       | None \<Rightarrow> viaApp)
                  | None \<Rightarrow> viaApp)
             | None \<Rightarrow> viaApp)
      in case truthyStr (opt_phoneNumberId opts) of
           None \<Rightarrow> rest
         | Some pid \<Rightarrow>
             (case phoneNumbers pid of
                None \<Rightarrow> rest
              | Some phone \<Rightarrow>
                  (case truthyStr (case pn_webhookConfiguration phone of
                                     Some c \<Rightarrow> pwc_overrideCallbackUri c | None \<Rightarrow> None) of
                     Some url \<Rightarrow>
                       Some \<lparr>rt_url = url, rt_source = source_phone, rt_phoneId = Some (pn_id phone),
                             rt_wabaId = truthyStr (pn_wabaId phone), rt_appSecret = None\<rparr>
                   | None \<Rightarrow>
                       (case truthyStr (pn_wabaId phone) of
                          None \<Rightarrow> rest
                        | Some pw \<Rightarrow>
                            (case wabas pw of
                               None \<Rightarrow> rest
                             | Some waba \<Rightarrow>
                                 (case truthyStr (waba_overrideCallbackUri waba) of
                                    Some url \<Rightarrow>
                                      Some \<lparr>rt_url = url, rt_source = source_waba,
                                            rt_phoneId = Some (pn_id phone),
                                            rt_wabaId = Some pw, rt_appSecret = None\<rparr>
                                  | None \<Rightarrow> rest))))))"

text \<open>
  \<open>String.prototype.toUpperCase\<close> on ASCII strings: the letters a to z are mapped and
  every other character is left as it is. Letters outside ASCII, which the source would
  map too, are outside the model; the register route passes region codes of an ASCII
  allow-list only.
\<close>

definition toUpperCase :: "string \<Rightarrow> string" where
  "toUpperCase s =
     map (\<lambda>c. let n = (of_char c :: nat) in if 97 \<le> n \<and> n \<le> 122 then char_of (n - 32) else c) s"

datatype RegistrationError = not_found | rate_limited

text \<open>
  The result of a registration or deregistration: \<open>{ok: true, phone}\<close>, or
  \<open>{ok: false, error, retryAfterMs?, attemptsInWindow?}\<close>.
\<close>

datatype RegistrationResult =
    RegOk PhoneNumberConfig
  | RegFailed RegistrationError "int option" "nat option"

definition registerPhoneNumber ::
  "PhoneNumbers \<Rightarrow> string \<Rightarrow> string \<Rightarrow> string option \<Rightarrow> int
     \<Rightarrow> RegistrationResult \<times> PhoneNumbers" where
  "registerPhoneNumber phoneNumbers ident pin dataLocalizationRegion now =
     (case phoneNumbers ident of
        None \<Rightarrow> (RegFailed not_found None None, phoneNumbers)
      | Some phone \<Rightarrow>
          (let attempts = pruneWindow (ensureArray (pn_registerRequests phone)) now
           in if length attempts \<ge> REQUEST_LIMIT then
                (let oldest = Min (set attempts);
                     phone' = phone\<lparr>pn_registerRequests := Some attempts\<rparr>
                 in (RegFailed rate_limited
                       (Some (max 0 (jsSub (jsAdd oldest REQUEST_WINDOW_MS) now)))
                       (Some (length attempts)),
                     phoneNumbers(ident \<mapsto> phone')))
              else
                (let attempts' = attempts @ [now];
                     phone' = phone\<lparr>pn_registerRequests := Some attempts',
                                    pn_twoStepVerificationPin := Some pin,
                                    pn_registered := Some True,
                                    pn_dataLocalizationRegion :=
                                      (case truthyStr dataLocalizationRegion of
                                         Some r \<Rightarrow> Some (toUpperCase r) | None \<Rightarrow> None)\<rparr>
                 in (RegOk phone', phoneNumbers(ident \<mapsto> phone')))))"

definition deregisterPhoneNumber ::
  "PhoneNumbers \<Rightarrow> string \<Rightarrow> int \<Rightarrow> RegistrationResult \<times> PhoneNumbers" where
  "deregisterPhoneNumber phoneNumbers ident now =
     (case phoneNumbers ident of
        None \<Rightarrow> (RegFailed not_found None None, phoneNumbers)
      | Some phone \<Rightarrow>
          (let attempts = pruneWindow (ensureArray (pn_deregisterRequests phone)) now
           in if length attempts \<ge> REQUEST_LIMIT then
                (let oldest = Min (set attempts);
                     phone' = phone\<lparr>pn_deregisterRequests := Some attempts\<rparr>
                 in (RegFailed rate_limited
                       (Some (max 0 (jsSub (jsAdd oldest REQUEST_WINDOW_MS) now)))
                       (Some (length attempts)),
                     phoneNumbers(ident \<mapsto> phone')))
              else
                (let attempts' = attempts @ [now];
                     phone' = phone\<lparr>pn_deregisterRequests := Some attempts',
                                    pn_registered := Some False,
                                    pn_dataLocalizationRegion := None\<rparr>
                 in (RegOk phone', phoneNumbers(ident \<mapsto> phone')))))"




text \<open>
  The throttle both operations apply to their own attempt sequence: the retry delay when
  the call is refused (\<open>None\<close> when it goes through), and the sequence stored afterwards.
\<close>

definition throttleStep :: "int list \<Rightarrow> int \<Rightarrow> int option \<times> int list" where
  "throttleStep stored now =
     (let attempts = pruneWindow stored now
      in if length attempts \<ge> REQUEST_LIMIT
         then (Some (max 0 (jsSub (jsAdd (Min (set attempts)) REQUEST_WINDOW_MS) now)), attempts)
         else (None, attempts @ [now]))"

fun throttleRun :: "int list \<Rightarrow> int list \<Rightarrow> int option list \<times> int list" where
  "throttleRun stored [] = ([], stored)"
| "throttleRun stored (now # later) =
     (let (r, stored1) = throttleStep stored now;
          (rs, stored2) = throttleRun stored1 later
      in (r # rs, stored2))"








text \<open>Test data: one phone under a WABA, created through the upsert functions.\<close>

definition scenarioPhones :: PhoneNumbers where
  "scenarioPhones =
     snd (upsertPhoneNumber Map.empty
            \<lparr>up_id = ''555'', up_displayPhoneNumber = ''+1 555'', up_wabaId = Some ''w1'',
             up_webhookConfiguration = None, up_verifiedName = None, up_qualityRating = None,
             up_accountMode = None\<rparr> 0)"








text \<open>
  The four tiers of the resolver, each stated on its own, and the first-match rule.
  \<open>referencedPhone\<close> is the phone the options name, when they name one that exists.
\<close>

definition referencedPhone :: "PhoneNumbers \<Rightarrow> ResolveOpts \<Rightarrow> PhoneNumberConfig option" where
  "referencedPhone phoneNumbers opts =
     (case truthyStr (opt_phoneNumberId opts) of Some pid \<Rightarrow> phoneNumbers pid | None \<Rightarrow> None)"

definition wabaOverride :: "Wabas \<Rightarrow> string option \<Rightarrow> (string \<times> WabaOverrideConfig) option" where
  "wabaOverride wabas wid =
     (case truthyStr wid of
        None \<Rightarrow> None
      | Some w \<Rightarrow>
          (case wabas w of
             None \<Rightarrow> None
           | Some waba \<Rightarrow>
               (case truthyStr (waba_overrideCallbackUri waba) of
                  None \<Rightarrow> None | Some url \<Rightarrow> Some (url, waba))))"

definition tierPhone :: "PhoneNumbers \<Rightarrow> ResolveOpts \<Rightarrow> ResolvedWebhookTarget option" where
  "tierPhone phoneNumbers opts =
     (case referencedPhone phoneNumbers opts of
        None \<Rightarrow> None
      | Some phone \<Rightarrow>
          (case pn_webhookConfiguration phone of
             None \<Rightarrow> None
           | Some c \<Rightarrow>
               (case truthyStr (pwc_overrideCallbackUri c) of
                  None \<Rightarrow> None
                | Some url \<Rightarrow>
                    Some \<lparr>rt_url = url, rt_source = source_phone, rt_phoneId = Some (pn_id phone),
                          rt_wabaId = truthyStr (pn_wabaId phone), rt_appSecret = None\<rparr>)))"

definition tierPhoneWaba ::
  "PhoneNumbers \<Rightarrow> Wabas \<Rightarrow> ResolveOpts \<Rightarrow> ResolvedWebhookTarget option" where
  "tierPhoneWaba phoneNumbers wabas opts =
     (case referencedPhone phoneNumbers opts of
        None \<Rightarrow> None
      | Some phone \<Rightarrow>
          (case wabaOverride wabas (pn_wabaId phone) of
             None \<Rightarrow> None
           | Some (url, waba) \<Rightarrow>
               Some \<lparr>rt_url = url, rt_source = source_waba, rt_phoneId = Some (pn_id phone),
                     rt_wabaId = pn_wabaId phone, rt_appSecret = None\<rparr>))"

definition tierGivenWaba :: "Wabas \<Rightarrow> ResolveOpts \<Rightarrow> ResolvedWebhookTarget option" where
  "tierGivenWaba wabas opts =
     (case wabaOverride wabas (opt_wabaId opts) of
        None \<Rightarrow> None
      | Some (url, waba) \<Rightarrow>
          Some \<lparr>rt_url = url, rt_source = source_waba, rt_phoneId = None,
                rt_wabaId = Some (waba_wabaId waba), rt_appSecret = None\<rparr>)"

definition tierApp :: "RuntimeConfig \<Rightarrow> ResolvedWebhookTarget option" where
  "tierApp cfg =
     (case truthyStr (rc_targetWebhookUrl cfg) of
        None \<Rightarrow> None
      | Some url \<Rightarrow>
          Some \<lparr>rt_url = url, rt_source = source_app, rt_phoneId = None, rt_wabaId = None,
                rt_appSecret = truthyStr (rc_webhookAppSecret cfg)\<rparr>)"

fun firstMatch :: "'a option list \<Rightarrow> 'a option" where
  "firstMatch [] = None"
| "firstMatch (Some x # rest) = Some x"
| "firstMatch (None # rest) = firstMatch rest"

text \<open>
  The precedence in the words of the specification: the third tier answers only when a
  WABA id was given and no phone id.
\<close>

definition specifiedPrecedence ::
  "RuntimeConfig \<Rightarrow> PhoneNumbers \<Rightarrow> Wabas \<Rightarrow> ResolveOpts \<Rightarrow> ResolvedWebhookTarget option" where
  "specifiedPrecedence cfg phoneNumbers wabas opts =
     firstMatch
       [tierPhone phoneNumbers opts,
        tierPhoneWaba phoneNumbers wabas opts,
        (if truthyStr (opt_phoneNumberId opts) = None then tierGivenWaba wabas opts else None),
        tierApp cfg]"

text \<open>
  Test data for routing: phone 555 of WABA w1 with its own override, phone 777 without
  one and without a WABA, WABA w1 with an override, and a global target.
\<close>

definition routingPhones :: PhoneNumbers where
  "routingPhones =
     snd (upsertPhoneNumber
            (snd (upsertPhoneNumber Map.empty
                    \<lparr>up_id = ''555'', up_displayPhoneNumber = ''+1 555'', up_wabaId = Some ''w1'',
                     up_webhookConfiguration =
                       Some \<lparr>wci_overrideCallbackUri = Some (Some ''https://p''),
                             wci_verifyToken = Some None\<rparr>,
                     up_verifiedName = None, up_qualityRating = None, up_accountMode = None\<rparr> 0))
            \<lparr>up_id = ''777'', up_displayPhoneNumber = ''+1 777'', up_wabaId = None,
             up_webhookConfiguration = None, up_verifiedName = None, up_qualityRating = None,
             up_accountMode = None\<rparr> 0)"

definition routingWabas :: Wabas where
  "routingWabas =
     snd (upsertWaba Map.empty
            \<lparr>uw_wabaId = ''w1'', uw_overrideCallbackUri = Some ''https://w'', uw_verifyToken = None\<rparr>)"

definition routingConfig :: RuntimeConfig where
  "routingConfig = (runtimeConfig (Some ''s3cret''))\<lparr>rc_targetWebhookUrl := Some ''https://g''\<rparr>"

text \<open>Test data for verification: phone 555 after a code request with code 123456.\<close>

definition pendingPhones :: PhoneNumbers where
  "pendingPhones =
     snd (requestPhoneVerificationCode scenarioPhones ''555'' SMS ''en_US'' ''123456'' 5000)"

section \<open>Rolling windows\<close>

text \<open>
  What it means for a stored rolling-window structure to hold only entries that are not
  older than the window ending at \<open>now\<close>: a number's send events, an attempt sequence,
  a marketing frequency bucket.
\<close>

definition sendsWithinWindow :: "MessagingLimitState \<Rightarrow> int \<Rightarrow> bool" where
  "sendsWithinWindow state now =
     list_all (\<lambda>e. now - mls_windowMs state \<le> se_timestamp e) (mls_sends state)"

definition attemptsWithinWindow :: "int list option \<Rightarrow> int \<Rightarrow> bool" where
  "attemptsWithinWindow requests now =
     list_all (\<lambda>ts. now - REQUEST_WINDOW_MS \<le> ts) (ensureArray requests)"

definition bucketWithinWindow :: "MarketingStore \<Rightarrow> string \<Rightarrow> string \<Rightarrow> int \<Rightarrow> bool" where
  "bucketWithinWindow store phoneId to now =
     list_all (\<lambda>s. now - frequencyWindowMs (config store) \<le> effectiveTime s)
       (bucketOf store phoneId to)"

text \<open>
  Test data: number A after a send at time 0 and a send two days later; the marketing
  store after a send registered two days in, scheduled for time 0.
\<close>

definition twoDays :: int where
  "twoDays = 2 * 24 * 60 * 60 * 1000"

definition staleStates :: LimitStates where
  "staleStates =
     snd (snd (registerSend (snd (snd (registerSend Map.empty ''A'' ''551'' UTILITY 0)))
                 ''A'' ''552'' UTILITY twoDays))"

definition backdatedStore :: MarketingStore where
  "backdatedStore =
     snd (registerMarketingSend initialMarketingStore (sendParams ''A'' ''551'' (Some 0))
            twoDays ''zzzzzz'')"

section \<open>Event bus (events module)\<close>

datatype EventDirection = inbound | outbound | system

datatype EventType =
  evt_webhook_incoming | evt_simulate_message | evt_simulate_status | evt_config_update

text \<open>
  The payload and the optional \<open>meta\<close> of an event are opaque to the bus; \<open>'p\<close> stands
  for both value types.
\<close>

record 'p SandboxEventInput =
  ev_direction :: EventDirection
  ev_type :: EventType
  ev_source :: string
  ev_payload :: 'p
  ev_meta :: "'p option"

record 'p SandboxEvent = "'p SandboxEventInput" +
  ev_id :: string
  ev_timestamp :: int

definition maxEvents :: nat where
  "maxEvents = 200"

text \<open>
  A subscriber is a callback run for its effect on the world outside the bus (\<open>'w\<close>); it
  returns normally or throws, in both cases leaving a world behind.
\<close>

datatype 'w Outcome = Returned 'w | Threw 'w

type_synonym ('p, 'w) Subscriber = "'p SandboxEvent \<Rightarrow> 'w \<Rightarrow> 'w Outcome"

text \<open>
  The bus: the log, and the subscribers that \<open>subscribe\<close> has added, in the order a
  JavaScript \<open>Set\<close> iterates them (insertion order).
\<close>

record ('p, 'w) EventBus =
  events :: "'p SandboxEvent list"
  subscribers :: "('p, 'w) Subscriber list"

definition listEvents :: "('p, 'w) EventBus \<Rightarrow> 'p SandboxEvent list" where
  "listEvents bus = events bus"

text \<open>\<open>try { subscriber(enriched) } catch { }\<close> for each subscriber in turn.\<close>

fun notifySubscribers :: "('p, 'w) Subscriber list \<Rightarrow> 'p SandboxEvent \<Rightarrow> 'w \<Rightarrow> 'w" where
  "notifySubscribers [] enriched world = world"
| "notifySubscribers (subscriber # rest) enriched world =
     (case subscriber enriched world of
        Returned world' \<Rightarrow> notifySubscribers rest enriched world'
      | Threw world' \<Rightarrow> notifySubscribers rest enriched world')"

text \<open>
  \<open>addEvent\<close>: \<open>idNow\<close> and \<open>tsNow\<close> are the two readings of \<open>Date.now()\<close>, \<open>rnd\<close> the
  characters drawn from \<open>Math.random()\<close>. It returns the enriched event, the bus and the
  world the subscribers leave.
\<close>

definition addEvent ::
  "('p, 'w) EventBus \<Rightarrow> 'p SandboxEventInput \<Rightarrow> int \<Rightarrow> string \<Rightarrow> int \<Rightarrow> 'w
     \<Rightarrow> 'p SandboxEvent \<times> ('p, 'w) EventBus \<times> 'w" where
  "addEvent bus event idNow rnd tsNow world =
     (let enriched = \<lparr>ev_direction = ev_direction event, ev_type = ev_type event,
                      ev_source = ev_source event, ev_payload = ev_payload event,
                      ev_meta = ev_meta event,
                      ev_id = ''evt_'' @ decimalInt idNow @ ''_'' @ rnd,
                      ev_timestamp = tsNow\<rparr>;
          events1 = events bus @ [enriched];
          events2 = (if length events1 > maxEvents
                     then drop (length events1 - maxEvents) events1 else events1);
          world' = notifySubscribers (subscribers bus) enriched world
      in (enriched, bus\<lparr>events := events2\<rparr>, world'))"

text \<open>Publishing a list of events in sequence, each with its clock readings.\<close>

fun publishAll ::
  "('p, 'w) EventBus \<Rightarrow> ('p SandboxEventInput \<times> int \<times> string \<times> int) list \<Rightarrow> 'w
     \<Rightarrow> 'p SandboxEvent list \<times> ('p, 'w) EventBus \<times> 'w" where
  "publishAll bus [] world = ([], bus, world)"
| "publishAll bus ((event, idNow, rnd, tsNow) # rest) world =
     (let (enriched, bus1, world1) = addEvent bus event idNow rnd tsNow world;
          (later, bus2, world2) = publishAll bus1 rest world1
      in (enriched # later, bus2, world2))"

text \<open>The record \<open>addEvent\<close> builds from its input and the readings of the clock.\<close>

definition enrichedEvent :: "'p SandboxEventInput \<times> int \<times> string \<times> int \<Rightarrow> 'p SandboxEvent" where
  "enrichedEvent input =
     (case input of (event, idNow, rnd, tsNow) \<Rightarrow>
        \<lparr>ev_direction = ev_direction event, ev_type = ev_type event,
         ev_source = ev_source event, ev_payload = ev_payload event, ev_meta = ev_meta event,
         ev_id = ''evt_'' @ decimalInt idNow @ ''_'' @ rnd, ev_timestamp = tsNow\<rparr>)"

text \<open>The last \<open>n\<close> elements of a list, in their order.\<close>

definition lastN :: "nat \<Rightarrow> 'a list \<Rightarrow> 'a list" where
  "lastN n xs = drop (length xs - n) xs"

text \<open>The effect of a subscriber on the world, whether it returned or threw.\<close>

fun worldAfter :: "'w Outcome \<Rightarrow> 'w" where
  "worldAfter (Returned world) = world"
| "worldAfter (Threw world) = world"

text \<open>
  Test data: the world is the list of deliveries (subscriber name, event id); one
  subscriber records its delivery and throws, the next records and returns.
\<close>

definition scenarioInputs :: "nat \<Rightarrow> (string SandboxEventInput \<times> int \<times> string \<times> int) list" where
  "scenarioInputs n =
     map (\<lambda>k. (\<lparr>ev_direction = system, ev_type = evt_config_update, ev_source = ''test'',
                  ev_payload = ''{}'', ev_meta = None\<rparr>, int k, ''abc123'', int k)) [0..<n]"

definition throwingSubscriber :: "(string, (string \<times> string) list) Subscriber" where
  "throwingSubscriber e world = Threw (world @ [(''first'', ev_id e)])"

definition recordingSubscriber :: "(string, (string \<times> string) list) Subscriber" where
  "recordingSubscriber e world = Returned (world @ [(''second'', ev_id e)])"

definition scenarioBus :: "(string, (string \<times> string) list) EventBus" where
  "scenarioBus = \<lparr>events = [], subscribers = [throwingSubscriber, recordingSubscriber]\<rparr>"

definition scenarioEvent :: "string SandboxEventInput" where
  "scenarioEvent =
     \<lparr>ev_direction = system, ev_type = evt_config_update, ev_source = ''test'',
      ev_payload = ''{}'', ev_meta = None\<rparr>"

section \<open>Template store (templates module)\<close>

datatype TemplateStatus =
  STATUS_APPROVED | STATUS_PENDING | STATUS_REJECTED | STATUS_IN_APPEAL | STATUS_DISABLED
  | STATUS_PAUSED

datatype TemplateRejectionReason =
  POLICY | SPAM | TRADEMARK | INCORRECT_FORMAT | PROHIBITED_CONTENT | OTHER

datatype TemplateButtonType = QUICK_REPLY | URL | PHONE_NUMBER | COPY_CODE

record TemplateButton =
  btn_type :: TemplateButtonType
  btn_text :: string
  btn_url :: "string option"
  btn_phone_number :: "string option"
  btn_example :: "string list option"

datatype TemplateComponentType = HEADER | BODY | FOOTER | BUTTONS

text \<open>The \<open>example\<close> object of a component is opaque to the store: \<open>'x\<close>.\<close>

record 'x TemplateComponent =
  tc_type :: TemplateComponentType
  tc_format :: "string option"
  tc_text :: "string option"
  tc_example :: "'x option"
  tc_buttons :: "TemplateButton list option"

record TemplateStatusAudit =
  tsa_status :: TemplateStatus
  tsa_reason :: "TemplateRejectionReason option"
  tsa_note :: "string option"
  tsa_updatedAt :: int

record 'x MessageTemplate =
  tpl_id :: string
  tpl_name :: string
  tpl_languageCode :: string
  tpl_category :: TemplateCategory
  tpl_bodyText :: "string option"
  tpl_headerText :: "string option"
  tpl_footerText :: "string option"
  tpl_components :: "'x TemplateComponent list"
  tpl_wabaId :: "string option"
  tpl_status :: TemplateStatus
  tpl_statusHistory :: "TemplateStatusAudit list"
  tpl_rejectionReason :: "TemplateRejectionReason option"
  tpl_rejectionNote :: "string option"
  tpl_createdAt :: int
  tpl_updatedAt :: int

type_synonym 'x Templates = "string \<rightharpoonup> 'x MessageTemplate"

text \<open>
  \<open>normalizeTemplateStatus\<close> on a value that already is a status (or is absent): the
  upper-casing and the membership test of the source leave a status as it is.
\<close>

definition normalizeTemplateStatus :: "TemplateStatus option \<Rightarrow> TemplateStatus \<Rightarrow> TemplateStatus" where
  "normalizeTemplateStatus status defaultStatus =
     (case status of None \<Rightarrow> defaultStatus | Some s \<Rightarrow> s)"

definition buildComponentsFromText ::
  "string option \<Rightarrow> string option \<Rightarrow> string option \<Rightarrow> 'x TemplateComponent list" where
  "buildComponentsFromText bodyText headerText footerText =
     (case truthyStr headerText of
        Some h \<Rightarrow> [\<lparr>tc_type = HEADER, tc_format = Some ''TEXT'', tc_text = Some h,
                     tc_example = None, tc_buttons = None\<rparr>]
      | None \<Rightarrow> [])
     @ (case truthyStr bodyText of
          Some b \<Rightarrow> [\<lparr>tc_type = BODY, tc_format = None, tc_text = Some b,
                       tc_example = None, tc_buttons = None\<rparr>]
        | None \<Rightarrow> [])
     @ (case truthyStr footerText of
          Some f \<Rightarrow> [\<lparr>tc_type = FOOTER, tc_format = None, tc_text = Some f,
                       tc_example = None, tc_buttons = None\<rparr>]
        | None \<Rightarrow> [])"

record DerivedText =
  dt_headerText :: "string option"
  dt_bodyText :: "string option"
  dt_footerText :: "string option"

text \<open>One turn of the loop of \<open>deriveTextFromComponents\<close>.\<close>

definition deriveStep :: "DerivedText \<Rightarrow> 'x TemplateComponent \<Rightarrow> DerivedText" where
  "deriveStep result component =
     (if tc_type component = HEADER \<and> truthyStr (tc_text component) \<noteq> None
         \<and> truthyStr (dt_headerText result) = None
      then result\<lparr>dt_headerText := tc_text component\<rparr>
      else if tc_type component = BODY \<and> truthyStr (tc_text component) \<noteq> None
         \<and> truthyStr (dt_bodyText result) = None
      then result\<lparr>dt_bodyText := tc_text component\<rparr>
      else if tc_type component = FOOTER \<and> truthyStr (tc_text component) \<noteq> None
         \<and> truthyStr (dt_footerText result) = None
      then result\<lparr>dt_footerText := tc_text component\<rparr>
      else result)"

definition deriveTextFromComponents :: "'x TemplateComponent list option \<Rightarrow> DerivedText" where
  "deriveTextFromComponents components =
     (let result = \<lparr>dt_headerText = None, dt_bodyText = None, dt_footerText = None\<rparr>
      in case components of
           None \<Rightarrow> result
         | Some cs \<Rightarrow> foldl deriveStep result cs)"

text \<open>
  \<open>ensureTemplateShape\<close>; \<open>now\<close> is the reading of \<open>Date.now()\<close>. A number is taken as
  false when it is 0.
\<close>

definition ensureTemplateShape ::
  "'x Templates \<Rightarrow> 'x MessageTemplate \<Rightarrow> int \<Rightarrow> 'x MessageTemplate \<times> 'x Templates" where
  "ensureTemplateShape templates tpl now =
     (let next1 = (if tpl_components tpl = []
                   then tpl\<lparr>tpl_components :=
                          buildComponentsFromText (tpl_bodyText tpl) (tpl_headerText tpl)
                            (tpl_footerText tpl)\<rparr>
                   else tpl);
          derived = deriveTextFromComponents (Some (tpl_components next1));
          next2 = (if truthyStr (tpl_bodyText next1) = None \<and> truthyStr (dt_bodyText derived) \<noteq> None
                   then next1\<lparr>tpl_bodyText := dt_bodyText derived\<rparr> else next1);
          next3 = (if truthyStr (tpl_headerText next2) = None \<and> truthyStr (dt_headerText derived) \<noteq> None
                   then next2\<lparr>tpl_headerText := dt_headerText derived\<rparr> else next2);
          next4 = (if truthyStr (tpl_footerText next3) = None \<and> truthyStr (dt_footerText derived) \<noteq> None
                   then next3\<lparr>tpl_footerText := dt_footerText derived\<rparr> else next3);
          next5 = (if tpl_statusHistory next4 = []
                   then next4\<lparr>tpl_statusHistory :=
                          [\<lparr>tsa_status = tpl_status next4, tsa_reason = tpl_rejectionReason next4,
                            tsa_note = None, tsa_updatedAt = tpl_updatedAt next4\<rparr>]\<rparr>
                   else next4);
          next6 = (if tpl_createdAt next5 = 0 then next5\<lparr>tpl_createdAt := now\<rparr> else next5);
          next7 = (if tpl_updatedAt next6 = 0 then next6\<lparr>tpl_updatedAt := tpl_createdAt next6\<rparr>
                   else next6)
      in (next7, templates(tpl_id next7 \<mapsto> next7)))"

definition getTemplateById ::
  "'x Templates \<Rightarrow> string \<Rightarrow> int \<Rightarrow> 'x MessageTemplate option \<times> 'x Templates" where
  "getTemplateById templates ident now =
     (case templates ident of
        None \<Rightarrow> (None, templates)
      | Some tpl \<Rightarrow>
          (let (shaped, templates') = ensureTemplateShape templates tpl now
           in (Some shaped, templates')))"

record 'x CreateTemplateInput =
  ct_name :: string
  ct_languageCode :: string
  ct_category :: "TemplateCategory option"
  ct_bodyText :: "string option"
  ct_headerText :: "string option"
  ct_footerText :: "string option"
  ct_components :: "'x TemplateComponent list option"
  ct_wabaId :: "string option"
  ct_status :: "TemplateStatus option"
  ct_rejectionReason :: "TemplateRejectionReason option"
  ct_rejectionNote :: "string option"

datatype TemplateError = body_text_required

text \<open>
  \<open>createTemplate\<close>: \<open>idNow\<close> and \<open>now\<close> are the two readings of the clock, \<open>rnd\<close> the
  random characters of the id. The thrown error is the \<open>Inl\<close> result.
\<close>

definition createTemplate ::
  "'x Templates \<Rightarrow> 'x CreateTemplateInput \<Rightarrow> int \<Rightarrow> string \<Rightarrow> int
     \<Rightarrow> TemplateError + 'x MessageTemplate \<times> 'x Templates" where
  "createTemplate templates input idNow rnd now =
     (let ident = ''tpl_'' @ decimalInt idNow @ ''_'' @ rnd;
          status = normalizeTemplateStatus (ct_status input) STATUS_PENDING;
          derivedComponents =
            (case ct_components input of
               Some cs \<Rightarrow> cs
             | None \<Rightarrow> buildComponentsFromText (ct_bodyText input) (ct_headerText input)
                         (ct_footerText input));
          derivedText = deriveTextFromComponents (Some derivedComponents);
          bodyText = (case ct_bodyText input of Some b \<Rightarrow> Some b | None \<Rightarrow> dt_bodyText derivedText)
      in if truthyStr bodyText = None then Inl body_text_required
         else
           (let rejectionReason =
                  (if status = STATUS_REJECTED
                   then (case ct_rejectionReason input of Some r \<Rightarrow> Some r | None \<Rightarrow> Some POLICY)
                   else ct_rejectionReason input);
                statusAudit = \<lparr>tsa_status = status, tsa_reason = rejectionReason,
                               tsa_note = ct_rejectionNote input, tsa_updatedAt = now\<rparr>;
                template =
                  \<lparr>tpl_id = ident,
                   tpl_name = ct_name input,
                   tpl_languageCode = ct_languageCode input,
                   tpl_category = (case ct_category input of Some c \<Rightarrow> c | None \<Rightarrow> UNKNOWN),
                   tpl_bodyText = bodyText,
                   tpl_headerText = (case ct_headerText input of Some h \<Rightarrow> Some h
                                     | None \<Rightarrow> dt_headerText derivedText),
                   tpl_footerText = (case ct_footerText input of Some f \<Rightarrow> Some f
                                     | None \<Rightarrow> dt_footerText derivedText),
                   tpl_components = derivedComponents,
                   tpl_wabaId = ct_wabaId input,
                   tpl_status = status,
                   tpl_statusHistory = [statusAudit],
                   tpl_rejectionReason = rejectionReason,
                   tpl_rejectionNote = ct_rejectionNote input,
                   tpl_createdAt = now,
                   tpl_updatedAt = now\<rparr>
            in Inr (template, templates(ident \<mapsto> template))))"

text \<open>
  The text of the first component of a type that has a non-empty text, if any; and the
  template a creation returned and what reading it back by id returns.
\<close>

definition firstTextOf :: "TemplateComponentType \<Rightarrow> 'x TemplateComponent list \<Rightarrow> string option" where
  "firstTextOf ty cs =
     (case find (\<lambda>c. tc_type c = ty \<and> truthyStr (tc_text c) \<noteq> None) cs of
        None \<Rightarrow> None
      | Some c \<Rightarrow> tc_text c)"

definition created :: "TemplateError + 'x MessageTemplate \<times> 'x Templates \<Rightarrow> 'x MessageTemplate" where
  "created r = fst (projr r)"

definition readBack ::
  "TemplateError + 'x MessageTemplate \<times> 'x Templates \<Rightarrow> int \<Rightarrow> 'x MessageTemplate option" where
  "readBack r now = fst (getTemplateById (snd (projr r)) (tpl_id (created r)) now)"

definition textsOf :: "'x MessageTemplate \<Rightarrow> DerivedText" where
  "textsOf tpl =
     \<lparr>dt_headerText = tpl_headerText tpl, dt_bodyText = tpl_bodyText tpl,
      dt_footerText = tpl_footerText tpl\<rparr>"

text \<open>Test data for the template store.\<close>

definition textComponent :: "TemplateComponentType \<Rightarrow> string \<Rightarrow> unit TemplateComponent" where
  "textComponent ty text =
     \<lparr>tc_type = ty, tc_format = None, tc_text = Some text, tc_example = None, tc_buttons = None\<rparr>"

definition templateInput ::
  "string option \<Rightarrow> string option \<Rightarrow> unit TemplateComponent list option \<Rightarrow> unit CreateTemplateInput" where
  "templateInput bodyText headerText components =
     \<lparr>ct_name = ''welcome'', ct_languageCode = ''en_US'', ct_category = None,
      ct_bodyText = bodyText, ct_headerText = headerText, ct_footerText = None,
      ct_components = components, ct_wabaId = None, ct_status = None,
      ct_rejectionReason = None, ct_rejectionNote = None\<rparr>"

definition createFrom ::
  "unit CreateTemplateInput \<Rightarrow> TemplateError + unit MessageTemplate \<times> unit Templates" where
  "createFrom input = createTemplate Map.empty input 1000 ''abc123'' 1000"

definition structuredComponents :: "unit TemplateComponent list" where
  "structuredComponents =
     [textComponent HEADER ''Hello'', textComponent BODY ''Hi {{1}}'',
      \<lparr>tc_type = BUTTONS, tc_format = None, tc_text = None, tc_example = None,
       tc_buttons = Some [\<lparr>btn_type = QUICK_REPLY, btn_text = ''Yes'', btn_url = None,
                           btn_phone_number = None, btn_example = None\<rparr>]\<rparr>]"

chapter \<open>Verified properties\<close>

section \<open>Messaging-limit tracker: decisions and the quota invariant\<close>

lemma getOrCreateState_simps:
  "states p = Some st \<Longrightarrow> getOrCreateState states p = (st, states)"
  "states p = None \<Longrightarrow> getOrCreateState states p =
     (\<lparr>mls_phoneId = p, mls_tier = TIER_1K, mls_windowMs = DEFAULT_WINDOW_MS, mls_sends = [],
       mls_totalCostUsd = 0\<rparr>, states(p \<mapsto> \<lparr>mls_phoneId = p, mls_tier = TIER_1K,
       mls_windowMs = DEFAULT_WINDOW_MS, mls_sends = [], mls_totalCostUsd = 0\<rparr>))"
  by (simp_all add: getOrCreateState_def Let_def)

lemma getOrCreateState_snd:
  "snd (getOrCreateState s p) = s(p \<mapsto> fst (getOrCreateState s p))"
  by (cases "s p") (auto simp: getOrCreateState_simps)

lemma getOrCreateState_within:
  "(\<forall>q st. s q = Some st \<longrightarrow> stateWithinLimit st) \<Longrightarrow>
     stateWithinLimit (fst (getOrCreateState s p))"
  by (cases "s p") (auto simp: getOrCreateState_simps stateWithinLimit_def zero_enat_def[symmetric])

lemma evaluateMessagingLimit_store:
  "snd (evaluateMessagingLimit s p to now) =
     s(p \<mapsto> (fst (getOrCreateState s p))
        \<lparr>mls_sends := pruneSends now (mls_windowMs (fst (getOrCreateState s p)))
                        (mls_sends (fst (getOrCreateState s p)))\<rparr>)"
  by (simp add: evaluateMessagingLimit_def Let_def split_beta getOrCreateState_snd)

lemma windowSends_filter:
  "windowSends st now evs = filter (\<lambda>e. now - mls_windowMs st \<le> se_timestamp e) evs"
  by (induction evs) (simp_all add: insideWindow_def)

lemma windowSends_pruneSends: "windowSends st now evs = pruneSends now (mls_windowMs st) evs"
  by (simp add: windowSends_filter pruneSends_def)

lemma evaluateMessagingLimit_allowed_iff:
  "mle_allowed (fst (evaluateMessagingLimit s p to now)) =
     (to \<in> windowRecipients (fst (getOrCreateState s p)) now \<or>
      enat (card (windowRecipients (fst (getOrCreateState s p)) now))
        < TIER_LIMITS (mls_tier (fst (getOrCreateState s p))))"
  by (auto simp: evaluateMessagingLimit_def Let_def windowRecipients_def windowSends_pruneSends
        not_le split_beta)

lemma registerSend_store:
  "snd (snd (registerSend s p to cat now)) =
     s(p \<mapsto> (fst (getOrCreateState s p))
        \<lparr>mls_sends := mls_sends (fst (getOrCreateState s p)) @
            [\<lparr>se_to = to, se_category = cat, se_timestamp = now, se_costUsd = CATEGORY_COST cat\<rparr>],
          mls_totalCostUsd := mls_totalCostUsd (fst (getOrCreateState s p)) + CATEGORY_COST cat\<rparr>)"
  by (simp add: registerSend_def Let_def split_beta getOrCreateState_snd)

lemma card_pruned_le:
  "card (set (map se_to (pruneSends now w evs))) \<le> card (set (map se_to evs))"
  by (rule card_mono) (auto simp: pruneSends_def)

lemma pruned_within:
  "stateWithinLimit st \<Longrightarrow> stateWithinLimit (st\<lparr>mls_sends := pruneSends now w (mls_sends st)\<rparr>)"
  unfolding stateWithinLimit_def
  using card_pruned_le[of now w "mls_sends st"]
  by (simp) (meson enat_ord_simps(1) order_trans)

lemma applyLimitOp_within:
  assumes "\<forall>q st. s q = Some st \<longrightarrow> stateWithinLimit st"
  shows "\<forall>q st. applyLimitOp s op q = Some st \<longrightarrow> stateWithinLimit st"
proof (cases op)
  case (Evaluate p to now)
  show ?thesis
    using assms getOrCreateState_within[OF assms, of p]
    by (auto simp: Evaluate evaluateMessagingLimit_store pruned_within)
next
  case (Summary p now)
  show ?thesis
    using assms getOrCreateState_within[OF assms, of p]
    by (auto simp: Summary getMessagingSummaryForPhone_def split_beta Let_def getOrCreateState_snd)
next
  case (GuardedSend p to cat nowE nowS)
  let ?st0 = "fst (getOrCreateState s p)"
  let ?st1 = "?st0\<lparr>mls_sends := pruneSends nowE (mls_windowMs ?st0) (mls_sends ?st0)\<rparr>"
  let ?s1 = "snd (evaluateMessagingLimit s p to nowE)"
  have s1: "?s1 = s(p \<mapsto> ?st1)" by (rule evaluateMessagingLimit_store)
  have w1: "stateWithinLimit ?st1"
    using getOrCreateState_within[OF assms, of p] by (rule pruned_within)
  have inv1: "\<forall>q st. ?s1 q = Some st \<longrightarrow> stateWithinLimit st"
    using assms w1 by (auto simp: s1)
  show ?thesis
  proof (cases "mle_allowed (fst (evaluateMessagingLimit s p to nowE))")
    case False
    then show ?thesis using inv1 by (simp add: GuardedSend split_beta)
  next
    case True
    have g1: "fst (getOrCreateState ?s1 p) = ?st1"
      by (simp add: s1 getOrCreateState_simps)
    let ?U = "set (map se_to (mls_sends ?st1))"
    from True have ok: "to \<in> ?U \<or> enat (card ?U) < TIER_LIMITS (mls_tier ?st0)"
      by (simp add: evaluateMessagingLimit_allowed_iff windowRecipients_def windowSends_pruneSends)
    let ?ev = "\<lparr>se_to = to, se_category = cat, se_timestamp = nowS, se_costUsd = CATEGORY_COST cat\<rparr>"
    let ?st2 = "?st1\<lparr>mls_sends := mls_sends ?st1 @ [?ev],
                  mls_totalCostUsd := mls_totalCostUsd ?st1 + CATEGORY_COST cat\<rparr>"
    have s2: "applyLimitOp s op = ?s1(p \<mapsto> ?st2)"
      using True by (simp add: GuardedSend split_beta registerSend_store g1)
    have "enat (card (insert to ?U)) \<le> TIER_LIMITS (mls_tier ?st0)"
    proof (cases "to \<in> ?U")
      case True
      then have "insert to ?U = ?U" by auto
      then show ?thesis using w1 by (simp add: stateWithinLimit_def)
    next
      case False
      with ok have lt: "enat (card ?U) < TIER_LIMITS (mls_tier ?st0)" by simp
      have "card (insert to ?U) = Suc (card ?U)" using False by simp
      then show ?thesis using lt by (simp add: Suc_ile_eq)
    qed
    then have w2: "stateWithinLimit ?st2" by (simp add: stateWithinLimit_def)
    show ?thesis using inv1 w2 by (auto simp: s2)
  qed
qed

lemma runLimitOps_within:
  "(\<forall>q st. s q = Some st \<longrightarrow> stateWithinLimit st) \<Longrightarrow>
   (\<forall>q st. runLimitOps s ops q = Some st \<longrightarrow> stateWithinLimit st)"
  unfolding runLimitOps_def
proof (induction ops arbitrary: s)
  case Nil
  then show ?case by simp
next
  case (Cons op ops)
  show ?case
    using Cons.IH[OF applyLimitOp_within[OF Cons.prems]] by simp
qed

lemma window_le_stored:
  "stateWithinLimit st \<Longrightarrow> enat (card (windowRecipients st now)) \<le> TIER_LIMITS (mls_tier st)"
  unfolding stateWithinLimit_def windowRecipients_def windowSends_pruneSends
  using card_pruned_le[of now "mls_windowMs st" "mls_sends st"]
  by (meson enat_ord_simps(1) order_trans)

lemma recipientNo_inj: "inj recipientNo"
  by (rule injI) (simp add: recipientNo_def replicate_eq_replicate)

lemma aged_windowSends:
  "agedStates n ''A'' = Some st \<Longrightarrow>
   map se_to (windowSends st 100001000 (mls_sends st)) = map recipientNo [0..<n]"
  by (auto simp: agedStates_def agedSends_def windowSends_filter DEFAULT_WINDOW_MS_def
        filter_map o_def)

lemma aged_windowRecipients:
  "agedStates n ''A'' = Some st \<Longrightarrow> windowRecipients st 100001000 = recipientNo ` {0..<n}"
  by (simp add: windowRecipients_def aged_windowSends)

lemma scenario_card: "card (recipientNo ` {0..<n}) = n"
  by (simp add: card_image inj_on_subset[OF recipientNo_inj])

text \<open>
  Claim C1. \<open>evaluateMessagingLimit\<close> first prunes: what it stores for the number are
  the events that were inside the window, in their order, and nothing else of the state
  changes. It allows the call exactly when the recipient is among the distinct recipients
  of those in-window events or their number is strictly below the tier's limit (250, 1000,
  10000, 100000, infinity), and reports that number and that limit. Events older than the
  window take no part: their recipients are no repeat contacts and are not counted. In
  particular at TIER_250 with 250 distinct in-window recipients a call is allowed exactly
  when its recipient is one of them.
\<close>

theorem evaluateMessagingLimit_decision:
  "(let st = fst (getOrCreateState states phoneId);
        ev = fst (evaluateMessagingLimit states phoneId to now);
        U = windowRecipients st now
    in mle_allowed ev = (to \<in> U \<or> enat (card U) < TIER_LIMITS (mls_tier st))
     \<and> mle_windowUniqueRecipients ev = card U
     \<and> mle_limitUniqueRecipients ev = TIER_LIMITS (mls_tier st)
     \<and> snd (evaluateMessagingLimit states phoneId to now) phoneId
         = Some (st\<lparr>mls_sends := windowSends st now (mls_sends st)\<rparr>)
     \<and> (mls_tier st = TIER_250 \<and> card U = 250 \<longrightarrow> mle_allowed ev = (to \<in> U)))
   \<and> TIER_LIMITS TIER_250 = 250 \<and> TIER_LIMITS TIER_1K = 1000
   \<and> TIER_LIMITS TIER_10K = 10000 \<and> TIER_LIMITS TIER_100K = 100000
   \<and> TIER_LIMITS TIER_UNLIMITED = \<infinity>"
proof -
  let ?st = "fst (getOrCreateState states phoneId)"
  let ?ev = "fst (evaluateMessagingLimit states phoneId to now)"
  let ?U = "windowRecipients ?st now"
  have a: "mle_allowed ?ev = (to \<in> ?U \<or> enat (card ?U) < TIER_LIMITS (mls_tier ?st))"
    by (rule evaluateMessagingLimit_allowed_iff)
  have n: "mle_windowUniqueRecipients ?ev = card ?U"
    and l: "mle_limitUniqueRecipients ?ev = TIER_LIMITS (mls_tier ?st)"
    by (simp_all add: evaluateMessagingLimit_def Let_def windowRecipients_def
          windowSends_pruneSends split_beta)
  have s: "snd (evaluateMessagingLimit states phoneId to now) phoneId
         = Some (?st\<lparr>mls_sends := windowSends ?st now (mls_sends ?st)\<rparr>)"
    by (simp add: evaluateMessagingLimit_store windowSends_pruneSends)
  have t: "mls_tier ?st = TIER_250 \<and> card ?U = 250 \<longrightarrow> mle_allowed ?ev = (to \<in> ?U)"
    unfolding a by (simp add: numeral_eq_enat)
  show ?thesis
    unfolding Let_def using a n l s t by (simp add: numeral_eq_enat)
qed

text \<open>
  The scenario, with an event older than the window in store. With 250 in-window
  recipients the recipient of the old event is refused like any new one, a recipient among
  the 250 is allowed, and the evaluation leaves the 250 in-window events in store. With
  249 in-window recipients a new recipient is allowed: the old event is not counted.
\<close>

theorem evaluateMessagingLimit_decision_witness:
  "mle_allowed (fst (evaluateMessagingLimit (agedStates 250) ''A'' (recipientNo 250) 100001000)) = False
   \<and> mle_allowed (fst (evaluateMessagingLimit (agedStates 250) ''A'' (recipientNo 17) 100001000)) = True
   \<and> mle_windowUniqueRecipients
         (fst (evaluateMessagingLimit (agedStates 250) ''A'' (recipientNo 250) 100001000)) = 250
   \<and> map_option (\<lambda>st. map se_to (mls_sends st))
         (snd (evaluateMessagingLimit (agedStates 250) ''A'' (recipientNo 250) 100001000) ''A'')
       = Some (map recipientNo [0..<250])
   \<and> map se_to (mls_sends (the (agedStates 250 ''A''))) = recipientNo 250 # map recipientNo [0..<250]
   \<and> mle_allowed (fst (evaluateMessagingLimit (agedStates 249) ''A'' (recipientNo 300) 100001000)) = True"
proof -
  have st: "agedStates n ''A'' = Some (the (agedStates n ''A''))" for n
    by (simp add: agedStates_def)
  have g: "fst (getOrCreateState (agedStates n) ''A'') = the (agedStates n ''A'')" for n
    using st[of n] by (simp add: getOrCreateState_simps)
  have tier: "mls_tier (the (agedStates n ''A'')) = TIER_250" for n
    by (simp add: agedStates_def)
  have stored: "map se_to (mls_sends (the (agedStates 250 ''A'')))
                  = recipientNo 250 # map recipientNo [0..<250]"
    by (simp add: agedStates_def agedSends_def o_def)
  note U = aged_windowRecipients[OF st] and S = aged_windowSends[OF st]
  note A = evaluateMessagingLimit_decision[of "agedStates 250" "''A''" "recipientNo 250" 100001000,
      unfolded Let_def g U tier, THEN conjunct1]
  note B = evaluateMessagingLimit_decision[of "agedStates 250" "''A''" "recipientNo 17" 100001000,
      unfolded Let_def g U tier, THEN conjunct1]
  note C = evaluateMessagingLimit_decision[of "agedStates 249" "''A''" "recipientNo 300" 100001000,
      unfolded Let_def g U tier, THEN conjunct1]
  have a: "mle_allowed (fst (evaluateMessagingLimit (agedStates 250) ''A'' (recipientNo 250) 100001000)) = False"
    using A by (simp add: scenario_card inj_eq[OF recipientNo_inj] image_iff numeral_eq_enat)
  have a2: "mle_windowUniqueRecipients
         (fst (evaluateMessagingLimit (agedStates 250) ''A'' (recipientNo 250) 100001000)) = 250"
    using A by (simp add: scenario_card)
  have a3: "map_option (\<lambda>st. map se_to (mls_sends st))
         (snd (evaluateMessagingLimit (agedStates 250) ''A'' (recipientNo 250) 100001000) ''A'')
       = Some (map recipientNo [0..<250])"
    using A by (simp add: S)
  have b: "mle_allowed (fst (evaluateMessagingLimit (agedStates 250) ''A'' (recipientNo 17) 100001000)) = True"
    using B by (simp add: scenario_card inj_eq[OF recipientNo_inj] image_iff numeral_eq_enat)
  have c: "mle_allowed (fst (evaluateMessagingLimit (agedStates 249) ''A'' (recipientNo 300) 100001000)) = True"
    using C by (simp add: scenario_card inj_eq[OF recipientNo_inj] image_iff numeral_eq_enat)
  show ?thesis using a a2 a3 b c stored by simp
qed

lemma registerSend_appends:
  "(let (event, state, states') = registerSend states phoneId to category now
    in event = \<lparr>se_to = to, se_category = category, se_timestamp = now,
                 se_costUsd = CATEGORY_COST category\<rparr>
     \<and> mls_sends state = mls_sends (fst (getOrCreateState states phoneId)) @ [event]
     \<and> states' phoneId = Some state)"
  by (simp add: registerSend_def Let_def split_beta)

text \<open>
  Claim C2. Start from numbers that have no sends yet (of any tier) and run any sequence
  of evaluations, summaries and guarded sends, a guarded send being an evaluation followed
  at once by the registration, which happens only when the evaluation allowed the
  recipient. Then for every number and every instant the count of
  distinct recipients among its in-window events is at most the tier's limit.
  \<open>registerSend\<close> itself checks nothing: it always appends the event it built.
\<close>

theorem guarded_sends_within_limit:
  assumes "\<forall>q st. states q = Some st \<longrightarrow> mls_sends st = []"
  shows "(\<forall>q st now. runLimitOps states ops q = Some st \<longrightarrow>
            enat (card (windowRecipients st now)) \<le> TIER_LIMITS (mls_tier st))
       \<and> (\<forall>s phoneId to category now.
            (let (event, state, states') = registerSend s phoneId to category now
             in event = \<lparr>se_to = to, se_category = category, se_timestamp = now,
                          se_costUsd = CATEGORY_COST category\<rparr>
              \<and> mls_sends state = mls_sends (fst (getOrCreateState s phoneId)) @ [event]
              \<and> states' phoneId = Some state))"
proof -
  have "\<forall>q st. states q = Some st \<longrightarrow> stateWithinLimit st"
    using assms by (auto simp: stateWithinLimit_def zero_enat_def[symmetric])
  then have "\<forall>q st. runLimitOps states ops q = Some st \<longrightarrow> stateWithinLimit st"
    by (rule runLimitOps_within)
  then show ?thesis
    using window_le_stored registerSend_appends by blast
qed


lemma scenarioOps_run:
  "map_option (\<lambda>st. (map se_to (mls_sends st), mls_tier st)) (runLimitOps (scenarioStates 0) scenarioOps ''A'')
     = Some ([''551'', ''552'', ''551''], TIER_250)"
  by code_simp

theorem guarded_sends_within_limit_witness:
  "\<exists>st. runLimitOps (scenarioStates 0) scenarioOps ''A'' = Some st
      \<and> map se_to (mls_sends st) = [''551'', ''552'', ''551'']
      \<and> mls_tier st = TIER_250
      \<and> enat (card (windowRecipients st 60)) \<le> 250"
proof -
  have h: "\<forall>q st. scenarioStates 0 q = Some st \<longrightarrow> mls_sends st = []"
    by (simp add: scenarioStates_def scenarioState_def scenarioSends_def)
  from scenarioOps_run obtain st where
    st: "runLimitOps (scenarioStates 0) scenarioOps ''A'' = Some st"
      "map se_to (mls_sends st) = [''551'', ''552'', ''551'']" "mls_tier st = TIER_250"
    by auto
  from guarded_sends_within_limit[OF h, of scenarioOps] st
  have "enat (card (windowRecipients st 60)) \<le> TIER_LIMITS (mls_tier st)" by blast
  with st show ?thesis by simp
qed

section \<open>Marketing store: eligibility and the frequency cap\<close>

text \<open>
  Claim C6. \<open>evaluateMarketingEligibility\<close> rejects an opted-out contact, allows an
  opted-in contact, and for a contact of status unknown or without a record allows exactly
  when \<open>requireOptIn\<close> is off; the status returned is the contact's, or unknown without
  a record. With \<open>requireOptIn\<close> on and no record: not allowed, status unknown.
\<close>

theorem evaluateMarketingEligibility_policy:
  "(let r = evaluateMarketingEligibility store waId in
      (case contacts store waId of
         None \<Rightarrow> me_allowed r = (\<not> requireOptIn (config store)) \<and> me_status r = unknown
       | Some c \<Rightarrow>
           me_status r = mc_status c \<and>
           (case mc_status c of
              opted_out \<Rightarrow> me_allowed r = False
            | opted_in \<Rightarrow> me_allowed r = True
            | unknown \<Rightarrow> me_allowed r = (\<not> requireOptIn (config store))))
      \<and> (requireOptIn (config store) \<and> contacts store waId = None \<longrightarrow>
            me_allowed r = False \<and> me_status r = unknown))"
  by (auto simp: evaluateMarketingEligibility_def Let_def
        split: option.splits MarketingOptInStatus.splits)

theorem evaluateMarketingEligibility_policy_witness:
  "requireOptIn (config initialMarketingStore) \<and> contacts initialMarketingStore ''551'' = None
   \<and> me_allowed (evaluateMarketingEligibility initialMarketingStore ''551'') = False
   \<and> me_status (evaluateMarketingEligibility initialMarketingStore ''551'') = unknown"
  using evaluateMarketingEligibility_policy[of initialMarketingStore "''551''"]
  by (simp add: Let_def initialMarketingStore_def initialMarketingConfig_def)

lemma evaluateMarketingFrequency_count:
  "mfe_sendsInWindow (evaluateMarketingFrequency store phoneId to now)
     = sendsNotOlderThanWindow store phoneId to now
   \<and> mfe_allowed (evaluateMarketingFrequency store phoneId to now)
     = (int (sendsNotOlderThanWindow store phoneId to now) < maxSendsPerWindow (config store))
   \<and> mfe_maxSends (evaluateMarketingFrequency store phoneId to now)
     = maxSendsPerWindow (config store)"
  by (simp add: evaluateMarketingFrequency_def sendsNotOlderThanWindow_def bucketOf_def Let_def)




lemma registerMarketingSend_config:
  "config (snd (registerMarketingSend store params now rnd)) = config store"
  by (simp add: registerMarketingSend_def Let_def)

lemma registerMarketingSend_bucket:
  "frequencyBuckets (snd (registerMarketingSend store params now rnd)) key =
     (if key = getFrequencyKey (rms_phoneId params) (rms_to params)
      then Some (filter (\<lambda>r. (case rms_sendAt params of Some t \<Rightarrow> t | None \<Rightarrow> now)
                               - frequencyWindowMs (config store) \<le> effectiveTime r)
                  (bucketOf store (rms_phoneId params) (rms_to params)
                     @ [fst (registerMarketingSend store params now rnd)]))
      else frequencyBuckets store key)"
  by (simp add: registerMarketingSend_def Let_def bucketOf_def)










section \<open>Phone lifecycle: the registration throttle\<close>

lemma W_nonneg: "0 \<le> REQUEST_WINDOW_MS" by (simp add: REQUEST_WINDOW_MS_def)

lemma W_le_MAX_EXACT: "REQUEST_WINDOW_MS \<le> MAX_EXACT"
  by (simp add: REQUEST_WINDOW_MS_def MAX_EXACT_def)





lemma throttleRun_length: "length (fst (throttleRun stored ts)) = length ts"
  by (induction ts arbitrary: stored) (simp_all add: split_beta Let_def)













subsection \<open>register / deregister against the throttle\<close>


























section \<open>Webhook target resolver\<close>

lemma truthyStr_Some: "truthyStr s = Some v \<longleftrightarrow> s = Some v \<and> v \<noteq> []"
  by (auto simp: truthyStr_def split: option.splits)

lemma truthyStr_None: "truthyStr s = None \<longleftrightarrow> s = None \<or> s = Some []"
  by (auto simp: truthyStr_def split: option.splits)

lemma truthyStr_None_arg: "truthyStr None = None"
  by (simp add: truthyStr_def)

lemma firstMatch_single: "firstMatch [x] = x"
  by (cases x) simp_all

lemma resolve_rest:
  "(case truthyStr (opt_wabaId opts) of
      Some wid \<Rightarrow>
        (case wabas wid of
           Some waba \<Rightarrow>
             (case truthyStr (waba_overrideCallbackUri waba) of
                Some url \<Rightarrow>
                  Some \<lparr>rt_url = url, rt_source = source_waba, rt_phoneId = None,
                        rt_wabaId = Some (waba_wabaId waba), rt_appSecret = None\<rparr>
              | None \<Rightarrow> tierApp cfg)
         | None \<Rightarrow> tierApp cfg)
    | None \<Rightarrow> tierApp cfg)
   = firstMatch [tierGivenWaba wabas opts, tierApp cfg]"
  by (simp add: tierGivenWaba_def wabaOverride_def firstMatch_single split: option.splits)

lemma resolve_unfolded:
  "resolveWebhookTarget cfg phoneNumbers wabas opts =
     (case truthyStr (opt_phoneNumberId opts) of
        None \<Rightarrow> firstMatch [tierGivenWaba wabas opts, tierApp cfg]
      | Some pid \<Rightarrow>
          (case phoneNumbers pid of
             None \<Rightarrow> firstMatch [tierGivenWaba wabas opts, tierApp cfg]
           | Some phone \<Rightarrow>
               (case truthyStr (case pn_webhookConfiguration phone of
                                  Some c \<Rightarrow> pwc_overrideCallbackUri c | None \<Rightarrow> None) of
                  Some url \<Rightarrow>
                    Some \<lparr>rt_url = url, rt_source = source_phone, rt_phoneId = Some (pn_id phone),
                          rt_wabaId = truthyStr (pn_wabaId phone), rt_appSecret = None\<rparr>
                | None \<Rightarrow>
                    (case truthyStr (pn_wabaId phone) of
                       None \<Rightarrow> firstMatch [tierGivenWaba wabas opts, tierApp cfg]
                     | Some pw \<Rightarrow>
                         (case wabas pw of
                            None \<Rightarrow> firstMatch [tierGivenWaba wabas opts, tierApp cfg]
                          | Some waba \<Rightarrow>
                              (case truthyStr (waba_overrideCallbackUri waba) of
                                 Some url \<Rightarrow>
                                   Some \<lparr>rt_url = url, rt_source = source_waba,
                                         rt_phoneId = Some (pn_id phone),
                                         rt_wabaId = Some pw, rt_appSecret = None\<rparr>
                               | None \<Rightarrow> firstMatch [tierGivenWaba wabas opts, tierApp cfg]))))))"
  unfolding resolveWebhookTarget_def Let_def tierApp_def[symmetric] resolve_rest ..

lemma wabaOverride_cases:
  "(case truthyStr wid of
      None \<Rightarrow> d
    | Some pw \<Rightarrow>
        (case wabas pw of
           None \<Rightarrow> d
         | Some waba \<Rightarrow>
             (case truthyStr (waba_overrideCallbackUri waba) of
                Some url \<Rightarrow> f url pw waba
              | None \<Rightarrow> d)))
   = (case wabaOverride wabas wid of
        None \<Rightarrow> d
      | Some (url, waba) \<Rightarrow> f url (the (truthyStr wid)) waba)"
  by (simp add: wabaOverride_def split: option.splits)

lemma wabaOverride_wid:
  "wabaOverride wabas wid = Some uw \<Longrightarrow> Some (the (truthyStr wid)) = wid"
  by (auto simp: wabaOverride_def truthyStr_def split: option.splits if_splits)

lemma resolve_first_match:
  "resolveWebhookTarget cfg phoneNumbers wabas opts =
     firstMatch [tierPhone phoneNumbers opts, tierPhoneWaba phoneNumbers wabas opts,
                 tierGivenWaba wabas opts, tierApp cfg]"
proof (cases "truthyStr (opt_phoneNumberId opts)")
  case None
  then show ?thesis
    by (simp add: resolve_unfolded tierPhone_def tierPhoneWaba_def referencedPhone_def)
next
  case (Some pid)
  show ?thesis
  proof (cases "phoneNumbers pid")
    case None
    then show ?thesis using Some
      by (simp add: resolve_unfolded tierPhone_def tierPhoneWaba_def referencedPhone_def)
  next
    case phone: (Some phone)
    show ?thesis
    proof (cases "truthyStr (case pn_webhookConfiguration phone of
                                  Some c \<Rightarrow> pwc_overrideCallbackUri c | None \<Rightarrow> None)")
      case url: (Some url)
      then show ?thesis using Some phone
        by (auto simp: resolve_unfolded tierPhone_def referencedPhone_def truthyStr_None_arg
              split: option.splits)
    next
      case nourl: None
      then have t1: "tierPhone phoneNumbers opts = None" using Some phone
        by (auto simp: tierPhone_def referencedPhone_def truthyStr_None_arg split: option.splits)
      have "resolveWebhookTarget cfg phoneNumbers wabas opts =
              (case wabaOverride wabas (pn_wabaId phone) of
                 None \<Rightarrow> firstMatch [tierGivenWaba wabas opts, tierApp cfg]
               | Some (url, waba) \<Rightarrow>
                   Some \<lparr>rt_url = url, rt_source = source_waba, rt_phoneId = Some (pn_id phone),
                         rt_wabaId = Some (the (truthyStr (pn_wabaId phone))),
                         rt_appSecret = None\<rparr>)"
        unfolding resolve_unfolded using Some phone nourl
        by (simp add: wabaOverride_cases)
      also have "\<dots> = firstMatch [tierPhoneWaba phoneNumbers wabas opts,
                                   tierGivenWaba wabas opts, tierApp cfg]"
      proof (cases "wabaOverride wabas (pn_wabaId phone)")
        case None
        then show ?thesis using Some phone
          by (simp add: tierPhoneWaba_def referencedPhone_def)
      next
        case ov: (Some uw)
        obtain url waba where uw: "uw = (url, waba)" by (cases uw)
        show ?thesis using Some phone ov wabaOverride_wid[OF ov]
          by (simp add: tierPhoneWaba_def referencedPhone_def uw)
      qed
      finally show ?thesis using t1 by simp
    qed
  qed
qed

lemma tier_sources:
  "(tierPhone phoneNumbers opts = Some r \<longrightarrow> rt_source r = source_phone \<and> rt_appSecret r = None)
 \<and> (tierPhoneWaba phoneNumbers wabas opts = Some r \<longrightarrow> rt_source r = source_waba \<and> rt_appSecret r = None)
 \<and> (tierGivenWaba wabas opts = Some r \<longrightarrow> rt_source r = source_waba \<and> rt_appSecret r = None)
 \<and> (tierApp cfg = Some r \<longrightarrow> rt_source r = source_app
        \<and> rt_appSecret r = truthyStr (rc_webhookAppSecret cfg))"
  by (intro conjI impI)
     (simp_all add: tierPhone_def tierPhoneWaba_def tierGivenWaba_def tierApp_def
        split: option.splits prod.splits, (fastforce)+)

lemma firstMatch_None: "firstMatch xs = None \<longleftrightarrow> (\<forall>x \<in> set xs. x = None)"
  by (induction xs rule: firstMatch.induct) auto

lemma firstMatch_in: "firstMatch xs = Some r \<Longrightarrow> Some r \<in> set xs"
  by (induction xs rule: firstMatch.induct) auto

lemma resolve_answering_tier:
  assumes "resolveWebhookTarget cfg phoneNumbers wabas opts = Some r"
  shows "(rt_source r = source_phone \<and> tierPhone phoneNumbers opts = Some r)
       \<or> (rt_source r = source_waba \<and> rt_appSecret r = None
            \<and> (tierPhoneWaba phoneNumbers wabas opts = Some r \<or> tierGivenWaba wabas opts = Some r))
       \<or> (rt_source r = source_app \<and> tierApp cfg = Some r)"
proof -
  from assms have "Some r \<in> set [tierPhone phoneNumbers opts, tierPhoneWaba phoneNumbers wabas opts,
                 tierGivenWaba wabas opts, tierApp cfg]"
    unfolding resolve_first_match by (rule firstMatch_in)
  then consider "tierPhone phoneNumbers opts = Some r" | "tierPhoneWaba phoneNumbers wabas opts = Some r"
    | "tierGivenWaba wabas opts = Some r" | "tierApp cfg = Some r"
    by auto
  then show ?thesis
    using tier_sources[of phoneNumbers opts r wabas cfg] by cases blast+
qed

lemma resolve_secret_only_app:
  assumes "resolveWebhookTarget cfg phoneNumbers wabas opts = Some r" and "rt_appSecret r \<noteq> None"
  shows "rt_source r = source_app \<and> rt_appSecret r = truthyStr (rc_webhookAppSecret cfg)"
proof -
  from assms(1) have "Some r \<in> set [tierPhone phoneNumbers opts, tierPhoneWaba phoneNumbers wabas opts,
                 tierGivenWaba wabas opts, tierApp cfg]"
    unfolding resolve_first_match by (rule firstMatch_in)
  then consider "tierPhone phoneNumbers opts = Some r" | "tierPhoneWaba phoneNumbers wabas opts = Some r"
    | "tierGivenWaba wabas opts = Some r" | "tierApp cfg = Some r"
    by auto
  then show ?thesis
    using tier_sources[of phoneNumbers opts r wabas cfg] assms(2) by cases blast+
qed

lemma resolve_phone_override:
  assumes "truthyStr (opt_phoneNumberId opts) = Some pid" and "phoneNumbers pid = Some phone"
      and "pn_webhookConfiguration phone = Some c" and "truthyStr (pwc_overrideCallbackUri c) = Some u"
  shows "map_option rt_url (resolveWebhookTarget cfg phoneNumbers wabas opts) = Some u
       \<and> map_option rt_source (resolveWebhookTarget cfg phoneNumbers wabas opts) = Some source_phone"
  using assms by (simp add: resolve_first_match tierPhone_def referencedPhone_def)

lemma resolve_waba_only:
  assumes "truthyStr (opt_phoneNumberId opts) = None" and "truthyStr (opt_wabaId opts) = Some wid"
      and "wabas wid = Some waba" and "truthyStr (waba_overrideCallbackUri waba) = Some u"
  shows "map_option rt_url (resolveWebhookTarget cfg phoneNumbers wabas opts) = Some u
       \<and> map_option rt_source (resolveWebhookTarget cfg phoneNumbers wabas opts) = Some source_waba"
  using assms
  by (simp add: resolve_first_match tierPhone_def tierPhoneWaba_def tierGivenWaba_def
        referencedPhone_def wabaOverride_def)

text \<open>
  Claim C4, as amended. \<open>resolveWebhookTarget\<close> returns the first tier that answers, in
  the order: (1) the override callback of the phone the options name, if set; (2) the
  override callback of that phone's WABA; (3) the override callback of the WABA named by
  the given WABA id, whenever a WABA id is given (with or without a phone id); (4) the
  global target. It returns nothing exactly when no tier answers. The \<open>source\<close> of the
  result names the tier (\<open>phone\<close>, \<open>waba\<close> for both WABA tiers, \<open>app\<close>), and an
  \<open>appSecret\<close> is present only in a result of the global tier. A phone id whose phone
  has an override resolves to it; a WABA id alone whose WABA has an override resolves to
  that.
\<close>

theorem resolveWebhookTarget_precedence:
  "resolveWebhookTarget cfg phoneNumbers wabas opts =
     firstMatch [tierPhone phoneNumbers opts, tierPhoneWaba phoneNumbers wabas opts,
                 tierGivenWaba wabas opts, tierApp cfg]
 \<and> (resolveWebhookTarget cfg phoneNumbers wabas opts = None \<longleftrightarrow>
      tierPhone phoneNumbers opts = None \<and> tierPhoneWaba phoneNumbers wabas opts = None
      \<and> tierGivenWaba wabas opts = None \<and> tierApp cfg = None)
 \<and> (resolveWebhookTarget cfg phoneNumbers wabas opts = Some r \<longrightarrow>
      (rt_source r = source_phone \<and> tierPhone phoneNumbers opts = Some r)
    \<or> (rt_source r = source_waba \<and> rt_appSecret r = None
         \<and> (tierPhoneWaba phoneNumbers wabas opts = Some r \<or> tierGivenWaba wabas opts = Some r))
    \<or> (rt_source r = source_app \<and> tierApp cfg = Some r))
 \<and> (resolveWebhookTarget cfg phoneNumbers wabas opts = Some r \<and> rt_appSecret r \<noteq> None \<longrightarrow>
      rt_source r = source_app \<and> rt_appSecret r = truthyStr (rc_webhookAppSecret cfg))
 \<and> (truthyStr (opt_phoneNumberId opts) = Some pid \<and> phoneNumbers pid = Some phone
      \<and> pn_webhookConfiguration phone = Some c \<and> truthyStr (pwc_overrideCallbackUri c) = Some u \<longrightarrow>
      map_option rt_url (resolveWebhookTarget cfg phoneNumbers wabas opts) = Some u
    \<and> map_option rt_source (resolveWebhookTarget cfg phoneNumbers wabas opts) = Some source_phone)
 \<and> (truthyStr (opt_phoneNumberId opts) = None \<and> truthyStr (opt_wabaId opts) = Some wid
      \<and> wabas wid = Some waba \<and> truthyStr (waba_overrideCallbackUri waba) = Some u' \<longrightarrow>
      map_option rt_url (resolveWebhookTarget cfg phoneNumbers wabas opts) = Some u'
    \<and> map_option rt_source (resolveWebhookTarget cfg phoneNumbers wabas opts) = Some source_waba)"
proof (intro conjI impI)
  show "resolveWebhookTarget cfg phoneNumbers wabas opts =
     firstMatch [tierPhone phoneNumbers opts, tierPhoneWaba phoneNumbers wabas opts,
                 tierGivenWaba wabas opts, tierApp cfg]"
    by (rule resolve_first_match)
  show "resolveWebhookTarget cfg phoneNumbers wabas opts = None \<longleftrightarrow>
      tierPhone phoneNumbers opts = None \<and> tierPhoneWaba phoneNumbers wabas opts = None
      \<and> tierGivenWaba wabas opts = None \<and> tierApp cfg = None"
    by (simp add: resolve_first_match firstMatch_None)
next
  assume "resolveWebhookTarget cfg phoneNumbers wabas opts = Some r"
  then show "(rt_source r = source_phone \<and> tierPhone phoneNumbers opts = Some r)
    \<or> (rt_source r = source_waba \<and> rt_appSecret r = None
         \<and> (tierPhoneWaba phoneNumbers wabas opts = Some r \<or> tierGivenWaba wabas opts = Some r))
    \<or> (rt_source r = source_app \<and> tierApp cfg = Some r)"
    by (rule resolve_answering_tier)
next
  assume a: "resolveWebhookTarget cfg phoneNumbers wabas opts = Some r \<and> rt_appSecret r \<noteq> None"
  show "rt_source r = source_app" and "rt_appSecret r = truthyStr (rc_webhookAppSecret cfg)"
    using resolve_secret_only_app[of cfg phoneNumbers wabas opts r] a by blast+
next
  assume a: "truthyStr (opt_phoneNumberId opts) = Some pid \<and> phoneNumbers pid = Some phone
      \<and> pn_webhookConfiguration phone = Some c \<and> truthyStr (pwc_overrideCallbackUri c) = Some u"
  show "map_option rt_url (resolveWebhookTarget cfg phoneNumbers wabas opts) = Some u"
   and "map_option rt_source (resolveWebhookTarget cfg phoneNumbers wabas opts) = Some source_phone"
    using resolve_phone_override[of opts pid phoneNumbers phone c u cfg wabas] a by simp_all
next
  assume a: "truthyStr (opt_phoneNumberId opts) = None \<and> truthyStr (opt_wabaId opts) = Some wid
      \<and> wabas wid = Some waba \<and> truthyStr (waba_overrideCallbackUri waba) = Some u'"
  show "map_option rt_url (resolveWebhookTarget cfg phoneNumbers wabas opts) = Some u'"
   and "map_option rt_source (resolveWebhookTarget cfg phoneNumbers wabas opts) = Some source_waba"
    using resolve_waba_only[of opts wid wabas waba u' cfg phoneNumbers] a by simp_all
qed

lemma routing_fixture:
  "routingPhones ''555'' \<noteq> None
   \<and> map_option pwc_overrideCallbackUri (pn_webhookConfiguration (the (routingPhones ''555'')))
       = Some (Some ''https://p'')
   \<and> map_option waba_overrideCallbackUri (routingWabas ''w1'') = Some (Some ''https://w'')
   \<and> rc_targetWebhookUrl routingConfig = Some ''https://g''"
  by code_simp

theorem resolveWebhookTarget_precedence_witness:
  "map_option rt_url (resolveWebhookTarget routingConfig routingPhones routingWabas
        \<lparr>opt_phoneNumberId = None, opt_wabaId = Some ''w1''\<rparr>) = Some ''https://w''
   \<and> map_option rt_url (resolveWebhookTarget routingConfig routingPhones routingWabas
        \<lparr>opt_phoneNumberId = Some ''555'', opt_wabaId = None\<rparr>) = Some ''https://p''
   \<and> map_option rt_source (resolveWebhookTarget routingConfig routingPhones routingWabas
        \<lparr>opt_phoneNumberId = Some ''555'', opt_wabaId = None\<rparr>) = Some source_phone
   \<and> map_option rt_appSecret (resolveWebhookTarget routingConfig routingPhones routingWabas
        \<lparr>opt_phoneNumberId = None, opt_wabaId = None\<rparr>) = Some (Some ''s3cret'')
   \<and> map_option rt_source (resolveWebhookTarget routingConfig routingPhones routingWabas
        \<lparr>opt_phoneNumberId = None, opt_wabaId = None\<rparr>) = Some source_app"
proof -
  let ?phone = "the (routingPhones ''555'')"
  let ?c = "the (pn_webhookConfiguration ?phone)"
  let ?waba = "the (routingWabas ''w1'')"
  have p: "routingPhones ''555'' = Some ?phone" using routing_fixture by auto
  have c: "pn_webhookConfiguration ?phone = Some ?c" using routing_fixture by auto
  have u: "truthyStr (pwc_overrideCallbackUri ?c) = Some ''https://p''"
    using routing_fixture by (auto simp: truthyStr_def)
  have w: "routingWabas ''w1'' = Some ?waba" using routing_fixture by auto
  have wu: "truthyStr (waba_overrideCallbackUri ?waba) = Some ''https://w''"
    using routing_fixture by (auto simp: truthyStr_def)
  note A = resolveWebhookTarget_precedence[where cfg = routingConfig and phoneNumbers = routingPhones
      and wabas = routingWabas and opts = "\<lparr>opt_phoneNumberId = Some ''555'', opt_wabaId = None\<rparr>"
      and pid = "''555''" and phone = ?phone and c = ?c and u = "''https://p''"]
  note B = resolveWebhookTarget_precedence[where cfg = routingConfig and phoneNumbers = routingPhones
      and wabas = routingWabas and opts = "\<lparr>opt_phoneNumberId = None, opt_wabaId = Some ''w1''\<rparr>"
      and wid = "''w1''" and waba = ?waba and u' = "''https://w''"]
  have "truthyStr (opt_phoneNumberId \<lparr>opt_phoneNumberId = Some ''555'', opt_wabaId = None\<rparr>) = Some ''555''"
    by (simp add: truthyStr_def)
  with A p c u have a: "map_option rt_url (resolveWebhookTarget routingConfig routingPhones routingWabas
        \<lparr>opt_phoneNumberId = Some ''555'', opt_wabaId = None\<rparr>) = Some ''https://p''
     \<and> map_option rt_source (resolveWebhookTarget routingConfig routingPhones routingWabas
        \<lparr>opt_phoneNumberId = Some ''555'', opt_wabaId = None\<rparr>) = Some source_phone"
    by blast
  have "truthyStr (opt_phoneNumberId \<lparr>opt_phoneNumberId = None, opt_wabaId = Some ''w1''\<rparr>) = None"
       "truthyStr (opt_wabaId \<lparr>opt_phoneNumberId = None, opt_wabaId = Some ''w1''\<rparr>) = Some ''w1''"
    by (simp_all add: truthyStr_def)
  with B w wu have b: "map_option rt_url (resolveWebhookTarget routingConfig routingPhones routingWabas
        \<lparr>opt_phoneNumberId = None, opt_wabaId = Some ''w1''\<rparr>) = Some ''https://w''"
    by blast
  let ?none = "resolveWebhookTarget routingConfig routingPhones routingWabas
                 \<lparr>opt_phoneNumberId = None, opt_wabaId = None\<rparr>"
  have sec: "map_option rt_appSecret ?none = Some (Some ''s3cret'')" by code_simp
  then have r: "?none = Some (the ?none)" and ns: "rt_appSecret (the ?none) \<noteq> None"
    by auto
  from resolveWebhookTarget_precedence[where cfg = routingConfig and phoneNumbers = routingPhones
      and wabas = routingWabas and opts = "\<lparr>opt_phoneNumberId = None, opt_wabaId = None\<rparr>"
      and r = "the ?none"] r ns
  have "rt_source (the ?none) = source_app" by blast
  with r have c: "map_option rt_source ?none = Some source_app" by (metis option.simps(9))
  from a b sec c show ?thesis by blast
qed

text \<open>
  The precedence as the specification words it fails when both ids are given: phone 777
  has no override and no WABA, WABA w1 has one; the resolver answers from tier (3) with
  the WABA's callback, where the worded precedence skips to the global target.
\<close>

theorem resolveWebhookTarget_both_ids_counterexample:
  "map_option rt_url (resolveWebhookTarget routingConfig routingPhones routingWabas
        \<lparr>opt_phoneNumberId = Some ''777'', opt_wabaId = Some ''w1''\<rparr>) = Some ''https://w''
   \<and> map_option rt_source (resolveWebhookTarget routingConfig routingPhones routingWabas
        \<lparr>opt_phoneNumberId = Some ''777'', opt_wabaId = Some ''w1''\<rparr>) = Some source_waba
   \<and> map_option rt_url (specifiedPrecedence routingConfig routingPhones routingWabas
        \<lparr>opt_phoneNumberId = Some ''777'', opt_wabaId = Some ''w1''\<rparr>) = Some ''https://g''
   \<and> map_option rt_source (specifiedPrecedence routingConfig routingPhones routingWabas
        \<lparr>opt_phoneNumberId = Some ''777'', opt_wabaId = Some ''w1''\<rparr>) = Some source_app"
  by code_simp

section \<open>Phone lifecycle: verification codes\<close>

lemma verify_result:
  "fst (verifyPhoneNumberCode phoneNumbers ident code) =
     (case phoneNumbers ident of
        None \<Rightarrow> False
      | Some phone \<Rightarrow>
          (case pn_pendingVerificationCode phone of
             None \<Rightarrow> False
           | Some pending \<Rightarrow> pvc_code pending = code))"
  by (simp add: verifyPhoneNumberCode_def Let_def split: option.splits)

lemma verify_failure_unchanged:
  "\<not> fst (verifyPhoneNumberCode phoneNumbers ident code) \<Longrightarrow>
   snd (verifyPhoneNumberCode phoneNumbers ident code) = phoneNumbers"
  by (simp add: verifyPhoneNumberCode_def Let_def split: option.splits if_splits)

lemma verify_success_state:
  "fst (verifyPhoneNumberCode phoneNumbers ident code) \<Longrightarrow>
   snd (verifyPhoneNumberCode phoneNumbers ident code) =
     phoneNumbers(ident \<mapsto> (the (phoneNumbers ident))
        \<lparr>pn_verificationStatus := VERIFIED, pn_pendingVerificationCode := None\<rparr>)"
  by (auto simp: verifyPhoneNumberCode_def Let_def split: option.splits if_splits)

lemma verify_single_use:
  assumes "fst (verifyPhoneNumberCode phoneNumbers ident code)"
  shows "\<not> fst (verifyPhoneNumberCode (snd (verifyPhoneNumberCode phoneNumbers ident code)) ident code')"
  unfolding verify_success_state[OF assms] by (simp add: verify_result)

text \<open>
  Claim C10. \<open>verifyPhoneNumberCode\<close> returns true exactly when the phone exists, has a
  pending code and the supplied code equals it. On success the phone becomes VERIFIED and
  the pending code is deleted, so the same call repeated at once returns false. A failing
  call leaves the registry unchanged.
\<close>

theorem verifyPhoneNumberCode_single_use:
  "(fst (verifyPhoneNumberCode phoneNumbers ident code) \<longleftrightarrow>
      (\<exists>phone pending. phoneNumbers ident = Some phone
          \<and> pn_pendingVerificationCode phone = Some pending \<and> pvc_code pending = code))
 \<and> (fst (verifyPhoneNumberCode phoneNumbers ident code) \<longrightarrow>
      (\<exists>phone. phoneNumbers ident = Some phone
         \<and> snd (verifyPhoneNumberCode phoneNumbers ident code) =
             phoneNumbers(ident \<mapsto> phone\<lparr>pn_verificationStatus := VERIFIED,
                                         pn_pendingVerificationCode := None\<rparr>))
    \<and> \<not> fst (verifyPhoneNumberCode (snd (verifyPhoneNumberCode phoneNumbers ident code)) ident code))
 \<and> (\<not> fst (verifyPhoneNumberCode phoneNumbers ident code) \<longrightarrow>
      snd (verifyPhoneNumberCode phoneNumbers ident code) = phoneNumbers)"
proof (intro conjI impI)
  show "fst (verifyPhoneNumberCode phoneNumbers ident code) \<longleftrightarrow>
      (\<exists>phone pending. phoneNumbers ident = Some phone
          \<and> pn_pendingVerificationCode phone = Some pending \<and> pvc_code pending = code)"
    unfolding verify_result by (simp split: option.splits)
next
  assume ok: "fst (verifyPhoneNumberCode phoneNumbers ident code)"
  then have "phoneNumbers ident = Some (the (phoneNumbers ident))"
    unfolding verify_result by (simp split: option.splits)
  then show "\<exists>phone. phoneNumbers ident = Some phone
         \<and> snd (verifyPhoneNumberCode phoneNumbers ident code) =
             phoneNumbers(ident \<mapsto> phone\<lparr>pn_verificationStatus := VERIFIED,
                                         pn_pendingVerificationCode := None\<rparr>)"
    using verify_success_state[OF ok] by blast
  show "\<not> fst (verifyPhoneNumberCode (snd (verifyPhoneNumberCode phoneNumbers ident code)) ident code)"
    using ok by (rule verify_single_use)
next
  assume "\<not> fst (verifyPhoneNumberCode phoneNumbers ident code)"
  then show "snd (verifyPhoneNumberCode phoneNumbers ident code) = phoneNumbers"
    by (rule verify_failure_unchanged)
qed

lemma pending_fixture:
  "map_option pn_verificationStatus (pendingPhones ''555'') = Some PENDING
   \<and> map_option (map_option pvc_code \<circ> pn_pendingVerificationCode) (pendingPhones ''555'')
       = Some (Some ''123456'')
   \<and> fst (verifyPhoneNumberCode pendingPhones ''555'' ''123456'') = True
   \<and> fst (verifyPhoneNumberCode pendingPhones ''555'' ''654321'') = False
   \<and> fst (verifyPhoneNumberCode pendingPhones ''999'' ''123456'') = False
   \<and> map_option pn_verificationStatus
        (snd (verifyPhoneNumberCode pendingPhones ''555'' ''123456'') ''555'') = Some VERIFIED
   \<and> map_option pn_pendingVerificationCode
        (snd (verifyPhoneNumberCode pendingPhones ''555'' ''123456'') ''555'') = Some None"
  by code_simp

theorem verifyPhoneNumberCode_single_use_witness:
  "fst (verifyPhoneNumberCode pendingPhones ''555'' ''123456'') = True
   \<and> fst (verifyPhoneNumberCode (snd (verifyPhoneNumberCode pendingPhones ''555'' ''123456''))
            ''555'' ''123456'') = False
   \<and> map_option pn_verificationStatus
        (snd (verifyPhoneNumberCode pendingPhones ''555'' ''123456'') ''555'') = Some VERIFIED
   \<and> fst (verifyPhoneNumberCode pendingPhones ''555'' ''654321'') = False
   \<and> snd (verifyPhoneNumberCode pendingPhones ''555'' ''654321'') = pendingPhones"
  using verifyPhoneNumberCode_single_use[of pendingPhones "''555''" "''123456''"]
        verifyPhoneNumberCode_single_use[of pendingPhones "''555''" "''654321''"]
        pending_fixture
  by simp

section \<open>Rolling windows: what is pruned, and when\<close>

lemma evaluate_prunes:
  "sendsWithinWindow (the (snd (evaluateMessagingLimit states phoneId to now) phoneId)) now"
  by (simp add: evaluateMessagingLimit_store sendsWithinWindow_def pruneSends_def list_all_iff)

lemma register_prunes:
  assumes "phoneNumbers ident = Some phone"
  shows "attemptsWithinWindow
           (pn_registerRequests (the (snd (registerPhoneNumber phoneNumbers ident pin region now) ident))) now"
proof -
  have "0 \<le> REQUEST_WINDOW_MS" by (rule W_nonneg)
  then show ?thesis using assms
    by (auto simp: registerPhoneNumber_def Let_def attemptsWithinWindow_def ensureArray_def
          pruneWindow_def list_all_iff)
qed

lemma deregister_prunes:
  assumes "phoneNumbers ident = Some phone"
  shows "attemptsWithinWindow
           (pn_deregisterRequests (the (snd (deregisterPhoneNumber phoneNumbers ident now) ident))) now"
proof -
  have "0 \<le> REQUEST_WINDOW_MS" by (rule W_nonneg)
  then show ?thesis using assms
    by (auto simp: deregisterPhoneNumber_def Let_def attemptsWithinWindow_def ensureArray_def
          pruneWindow_def list_all_iff)
qed

lemma registerMarketingSend_prunes:
  "bucketWithinWindow (snd (registerMarketingSend store params now rnd))
     (rms_phoneId params) (rms_to params)
     (case rms_sendAt params of Some t \<Rightarrow> t | None \<Rightarrow> now)"
  by (simp add: bucketWithinWindow_def bucketOf_def registerMarketingSend_bucket
        registerMarketingSend_config list_all_iff)

lemma summary_reads_only:
  "snd (getMessagingSummaryForPhone states phoneId now) phoneId
     = Some (fst (getOrCreateState states phoneId))
   \<and> sum_windowUniqueRecipients (fst (getMessagingSummaryForPhone states phoneId now))
     = card (windowRecipients (fst (getOrCreateState states phoneId)) now)"
  by (simp add: getMessagingSummaryForPhone_def split_beta Let_def getOrCreateState_snd
        windowRecipients_def windowSends_pruneSends)

text \<open>
  Claim C3, as amended. The functions that write a pruned sequence back leave it within
  the window: \<open>evaluateMessagingLimit\<close> the number's send events, and
  \<open>registerPhoneNumber\<close> and \<open>deregisterPhoneNumber\<close> (on a phone that exists) their
  own attempt sequence, each against \<open>now\<close>; \<open>registerMarketingSend\<close> the pair's
  bucket, against the effective send time (\<open>sendAt\<close> when given, else \<open>now\<close>).
  The others do not prune what is stored: \<open>registerSend\<close> only appends,
  \<open>getMessagingSummaryForPhone\<close> stores the state as it read it, and
  \<open>evaluateMarketingFrequency\<close> stores nothing; the counts these two return are taken
  over the in-window entries only.
\<close>

theorem rolling_windows_pruned_where_written:
  "sendsWithinWindow (the (snd (evaluateMessagingLimit states phoneId to now) phoneId)) now
 \<and> (phoneNumbers ident = Some phone \<longrightarrow>
      attemptsWithinWindow
        (pn_registerRequests (the (snd (registerPhoneNumber phoneNumbers ident pin region now) ident))) now
    \<and> attemptsWithinWindow
        (pn_deregisterRequests (the (snd (deregisterPhoneNumber phoneNumbers ident now) ident))) now)
 \<and> bucketWithinWindow (snd (registerMarketingSend store params now rnd))
      (rms_phoneId params) (rms_to params)
      (case rms_sendAt params of Some t \<Rightarrow> t | None \<Rightarrow> now)
 \<and> mls_sends (fst (snd (registerSend states phoneId to category now)))
      = mls_sends (fst (getOrCreateState states phoneId))
          @ [\<lparr>se_to = to, se_category = category, se_timestamp = now,
               se_costUsd = CATEGORY_COST category\<rparr>]
 \<and> snd (getMessagingSummaryForPhone states phoneId now) phoneId
      = Some (fst (getOrCreateState states phoneId))
 \<and> sum_windowUniqueRecipients (fst (getMessagingSummaryForPhone states phoneId now))
      = card (windowRecipients (fst (getOrCreateState states phoneId)) now)
 \<and> mfe_sendsInWindow (evaluateMarketingFrequency store phoneId to now)
      = sendsNotOlderThanWindow store phoneId to now"
proof (intro conjI impI)
  show "sendsWithinWindow (the (snd (evaluateMessagingLimit states phoneId to now) phoneId)) now"
    by (rule evaluate_prunes)
  show "bucketWithinWindow (snd (registerMarketingSend store params now rnd))
      (rms_phoneId params) (rms_to params)
      (case rms_sendAt params of Some t \<Rightarrow> t | None \<Rightarrow> now)"
    by (rule registerMarketingSend_prunes)
  show "mls_sends (fst (snd (registerSend states phoneId to category now)))
      = mls_sends (fst (getOrCreateState states phoneId))
          @ [\<lparr>se_to = to, se_category = category, se_timestamp = now,
               se_costUsd = CATEGORY_COST category\<rparr>]"
    by (simp add: registerSend_def Let_def split_beta)
  show "snd (getMessagingSummaryForPhone states phoneId now) phoneId
      = Some (fst (getOrCreateState states phoneId))"
    by (simp add: summary_reads_only)
  show "sum_windowUniqueRecipients (fst (getMessagingSummaryForPhone states phoneId now))
      = card (windowRecipients (fst (getOrCreateState states phoneId)) now)"
    by (simp add: summary_reads_only)
  show "mfe_sendsInWindow (evaluateMarketingFrequency store phoneId to now)
      = sendsNotOlderThanWindow store phoneId to now"
    by (simp add: evaluateMarketingFrequency_count)
next
  assume p: "phoneNumbers ident = Some phone"
  show "attemptsWithinWindow
        (pn_registerRequests (the (snd (registerPhoneNumber phoneNumbers ident pin region now) ident))) now"
    using p by (rule register_prunes)
  show "attemptsWithinWindow
        (pn_deregisterRequests (the (snd (deregisterPhoneNumber phoneNumbers ident now) ident))) now"
    using p by (rule deregister_prunes)
qed

theorem rolling_windows_pruned_where_written_witness:
  "scenarioPhones ''555'' \<noteq> None
   \<and> attemptsWithinWindow
        (pn_registerRequests (the (snd (registerPhoneNumber scenarioPhones ''555'' ''123456'' None 1000) ''555''))) 1000
   \<and> pn_registerRequests (the (snd (registerPhoneNumber scenarioPhones ''555'' ''123456'' None 1000) ''555''))
        = Some [1000]
   \<and> sendsWithinWindow (the (snd (evaluateMessagingLimit staleStates ''A'' ''553'' twoDays) ''A'')) twoDays
   \<and> map se_timestamp (mls_sends (the (snd (evaluateMessagingLimit staleStates ''A'' ''553'' twoDays) ''A'')))
        = [twoDays]"
proof -
  have ex: "scenarioPhones ''555'' = Some (the (scenarioPhones ''555''))"
    by (simp add: scenarioPhones_def upsertPhoneNumber_def Let_def)
  have val: "pn_registerRequests (the (snd (registerPhoneNumber scenarioPhones ''555'' ''123456'' None 1000) ''555''))
        = Some [1000]
     \<and> map se_timestamp (mls_sends (the (snd (evaluateMessagingLimit staleStates ''A'' ''553'' twoDays) ''A'')))
        = [twoDays]"
    by code_simp
  from rolling_windows_pruned_where_written[where phoneNumbers = scenarioPhones and ident = "''555''"
      and phone = "the (scenarioPhones ''555'')" and pin = "''123456''" and region = None and now = 1000]
    ex
  have a: "attemptsWithinWindow
        (pn_registerRequests (the (snd (registerPhoneNumber scenarioPhones ''555'' ''123456'' None 1000) ''555''))) 1000"
    by blast
  from rolling_windows_pruned_where_written[where states = staleStates and phoneId = "''A''"
      and to = "''553''" and now = twoDays]
  have b: "sendsWithinWindow (the (snd (evaluateMessagingLimit staleStates ''A'' ''553'' twoDays) ''A'')) twoDays"
    by blast
  from ex have "scenarioPhones ''555'' \<noteq> None" by (metis option.distinct(1))
  with a b val show ?thesis by blast
qed

text \<open>
  The claim as stated fails. After sends at 0 and two days later (window: one day),
  \<open>registerSend\<close> has left the event of time 0 in the stored sequence, and it is
  still there after \<open>getMessagingSummaryForPhone\<close>. A marketing send registered two
  days in and scheduled for time 0 sits in its bucket although it is older than
  \<open>now - window\<close>.
\<close>

theorem rolling_windows_counterexample:
  "map se_timestamp (mls_sends (the (staleStates ''A''))) = [0, 172800000]
   \<and> mls_windowMs (the (staleStates ''A'')) = 86400000
   \<and> sendsWithinWindow (the (staleStates ''A'')) twoDays = False
   \<and> sendsWithinWindow
        (the (snd (getMessagingSummaryForPhone staleStates ''A'' twoDays) ''A'')) twoDays = False
   \<and> map effectiveTime (bucketOf backdatedStore ''A'' ''551'') = [0]
   \<and> bucketWithinWindow backdatedStore ''A'' ''551'' twoDays = False"
  by code_simp

section \<open>Event bus\<close>

lemma lastN_lastN_append: "lastN n (lastN n xs @ ys) = lastN n (xs @ ys)"
proof (cases "length xs \<le> n")
  case True
  then show ?thesis by (simp add: lastN_def)
next
  case False
  let ?k = "length xs - n"
  have len: "length (drop ?k xs) = n" using False by simp
  have "lastN n (drop ?k xs @ ys) = drop (length ys) (drop ?k xs @ ys)"
    unfolding lastN_def using len by simp
  also have "\<dots> = drop (length ys) (drop ?k (xs @ ys))"
    using False by simp
  also have "\<dots> = drop (length ys + ?k) (xs @ ys)" by (simp only: drop_drop)
  also have "length ys + ?k = length (xs @ ys) - n" using False by simp
  finally show ?thesis by (simp add: lastN_def)
qed

lemma length_lastN: "length (lastN n xs) \<le> n"
  by (simp add: lastN_def)

lemma addEvent_enriched:
  "fst (addEvent bus event idNow rnd tsNow world) = enrichedEvent (event, idNow, rnd, tsNow)"
  by (simp add: addEvent_def enrichedEvent_def Let_def)

lemma addEvent_log:
  "events (fst (snd (addEvent bus event idNow rnd tsNow world)))
     = lastN maxEvents (events bus @ [enrichedEvent (event, idNow, rnd, tsNow)])"
  by (simp add: addEvent_def enrichedEvent_def Let_def lastN_def)

lemma addEvent_subscribers:
  "subscribers (fst (snd (addEvent bus event idNow rnd tsNow world))) = subscribers bus"
  by (simp add: addEvent_def Let_def)

lemma notifySubscribers_fold:
  "notifySubscribers subs enriched world
     = foldl (\<lambda>w subscriber. worldAfter (subscriber enriched w)) world subs"
proof (induction subs arbitrary: world)
  case Nil
  then show ?case by simp
next
  case (Cons subscriber rest)
  then show ?case by (cases "subscriber enriched world") simp_all
qed

lemma addEvent_world:
  "snd (snd (addEvent bus event idNow rnd tsNow world))
     = foldl (\<lambda>w subscriber. worldAfter (subscriber (enrichedEvent (event, idNow, rnd, tsNow)) w))
         world (subscribers bus)"
  by (simp add: addEvent_def enrichedEvent_def Let_def notifySubscribers_fold)

lemma publishAll_results:
  "fst (publishAll bus inputs world) = map enrichedEvent inputs"
proof (induction inputs arbitrary: bus world)
  case Nil
  then show ?case by simp
next
  case (Cons input rest)
  obtain event idNow rnd tsNow where i: "input = (event, idNow, rnd, tsNow)" by (cases input) auto
  show ?case
    using Cons.IH addEvent_enriched[of bus event idNow rnd tsNow world]
    by (simp add: i split_beta Let_def)
qed

lemma publishAll_log:
  "length (events bus) \<le> maxEvents \<Longrightarrow>
   events (fst (snd (publishAll bus inputs world)))
     = lastN maxEvents (events bus @ map enrichedEvent inputs)"
proof (induction inputs arbitrary: bus world)
  case Nil
  then show ?case by (simp add: lastN_def)
next
  case (Cons input rest)
  obtain event idNow rnd tsNow where i: "input = (event, idNow, rnd, tsNow)" by (cases input) auto
  let ?bus1 = "fst (snd (addEvent bus event idNow rnd tsNow world))"
  let ?world1 = "snd (snd (addEvent bus event idNow rnd tsNow world))"
  have log1: "events ?bus1 = lastN maxEvents (events bus @ [enrichedEvent input])"
    by (simp add: addEvent_log i)
  then have "length (events ?bus1) \<le> maxEvents" by (simp add: length_lastN)
  from Cons.IH[OF this, of ?world1]
  have "events (fst (snd (publishAll ?bus1 rest ?world1)))
          = lastN maxEvents (lastN maxEvents (events bus @ [enrichedEvent input]) @ map enrichedEvent rest)"
    by (simp only: log1)
  also have "\<dots> = lastN maxEvents ((events bus @ [enrichedEvent input]) @ map enrichedEvent rest)"
    by (rule lastN_lastN_append)
  finally show ?case by (simp add: i split_beta Let_def)
qed

lemma notify_independent_of_log:
  "events (fst (snd (addEvent (bus\<lparr>subscribers := subs\<rparr>) event idNow rnd tsNow world')))
     = events (fst (snd (addEvent bus event idNow rnd tsNow world)))"
  by (simp add: addEvent_log)

lemma addEvent_last:
  "last (events (fst (snd (addEvent bus event idNow rnd tsNow world))))
     = enrichedEvent (event, idNow, rnd, tsNow)"
  by (simp add: addEvent_log lastN_def maxEvents_def)

text \<open>
  Claim C8. Each \<open>addEvent\<close> returns the input record with an id and a timestamp,
  appends it to the log and keeps the last 200 entries, the new one last. Publishing any
  events in sequence on a log within the cap leaves the last 200 of old and new entries
  in their order; after 250 events these are the last 200 of the 250. Every subscriber is
  run on the event, in order, whether or not an earlier one threw, and the log after the
  call does not depend on the subscribers.
\<close>

theorem addEvent_log_and_delivery:
  "fst (addEvent bus event idNow rnd tsNow world) = enrichedEvent (event, idNow, rnd, tsNow)
 \<and> ev_id (fst (addEvent bus event idNow rnd tsNow world)) = ''evt_'' @ decimalInt idNow @ ''_'' @ rnd
 \<and> ev_timestamp (fst (addEvent bus event idNow rnd tsNow world)) = tsNow
 \<and> SandboxEventInput.truncate (fst (addEvent bus event idNow rnd tsNow world)) = event
 \<and> events (fst (snd (addEvent bus event idNow rnd tsNow world)))
      = lastN maxEvents (events bus @ [fst (addEvent bus event idNow rnd tsNow world)])
 \<and> last (events (fst (snd (addEvent bus event idNow rnd tsNow world))))
      = fst (addEvent bus event idNow rnd tsNow world)
 \<and> fst (publishAll bus inputs world) = map enrichedEvent inputs
 \<and> (length (events bus) \<le> maxEvents \<longrightarrow>
      events (fst (snd (publishAll bus inputs world)))
        = lastN maxEvents (events bus @ map enrichedEvent inputs))
 \<and> (length (events bus) \<le> maxEvents \<and> length inputs = 250 \<longrightarrow>
      events (fst (snd (publishAll bus inputs world))) = drop 50 (map enrichedEvent inputs)
    \<and> length (events (fst (snd (publishAll bus inputs world)))) = 200)
 \<and> snd (snd (addEvent bus event idNow rnd tsNow world))
      = foldl (\<lambda>w subscriber. worldAfter (subscriber (fst (addEvent bus event idNow rnd tsNow world)) w))
          world (subscribers bus)
 \<and> events (fst (snd (addEvent (bus\<lparr>subscribers := subs\<rparr>) event idNow rnd tsNow world')))
      = events (fst (snd (addEvent bus event idNow rnd tsNow world)))"
proof (intro conjI impI)
  show "fst (addEvent bus event idNow rnd tsNow world) = enrichedEvent (event, idNow, rnd, tsNow)"
    by (rule addEvent_enriched)
  show "ev_id (fst (addEvent bus event idNow rnd tsNow world)) = ''evt_'' @ decimalInt idNow @ ''_'' @ rnd"
    by (simp add: addEvent_enriched enrichedEvent_def)
  show "ev_timestamp (fst (addEvent bus event idNow rnd tsNow world)) = tsNow"
    by (simp add: addEvent_enriched enrichedEvent_def)
  show "SandboxEventInput.truncate (fst (addEvent bus event idNow rnd tsNow world)) = event"
    by (simp add: addEvent_enriched enrichedEvent_def SandboxEventInput.truncate_def)
  show "events (fst (snd (addEvent bus event idNow rnd tsNow world)))
      = lastN maxEvents (events bus @ [fst (addEvent bus event idNow rnd tsNow world)])"
    by (simp only: addEvent_enriched addEvent_log)
  show "last (events (fst (snd (addEvent bus event idNow rnd tsNow world))))
      = fst (addEvent bus event idNow rnd tsNow world)"
    by (simp only: addEvent_enriched addEvent_last)
  show "fst (publishAll bus inputs world) = map enrichedEvent inputs"
    by (rule publishAll_results)
  show "snd (snd (addEvent bus event idNow rnd tsNow world))
      = foldl (\<lambda>w subscriber. worldAfter (subscriber (fst (addEvent bus event idNow rnd tsNow world)) w))
          world (subscribers bus)"
    by (simp only: addEvent_enriched addEvent_world)
  show "events (fst (snd (addEvent (bus\<lparr>subscribers := subs\<rparr>) event idNow rnd tsNow world')))
      = events (fst (snd (addEvent bus event idNow rnd tsNow world)))"
    by (rule notify_independent_of_log)
next
  assume "length (events bus) \<le> maxEvents"
  then show "events (fst (snd (publishAll bus inputs world)))
        = lastN maxEvents (events bus @ map enrichedEvent inputs)"
    by (rule publishAll_log)
next
  assume a: "length (events bus) \<le> maxEvents \<and> length inputs = 250"
  then have "length (events bus) \<le> maxEvents" by simp
  from publishAll_log[OF this, of inputs world] a
  show "events (fst (snd (publishAll bus inputs world))) = drop 50 (map enrichedEvent inputs)"
   and "length (events (fst (snd (publishAll bus inputs world)))) = 200"
    by (simp_all add: lastN_def maxEvents_def)
qed

theorem addEvent_log_and_delivery_witness:
  "snd (snd (addEvent scenarioBus scenarioEvent 1000 ''abc123'' 1000 []))
     = [(''first'', ''evt_1000_abc123''), (''second'', ''evt_1000_abc123'')]
   \<and> length (events (fst (snd (publishAll scenarioBus (scenarioInputs 250) [])))) = 200
   \<and> map ev_timestamp (events (fst (snd (publishAll scenarioBus (scenarioInputs 250) []))))
       = map int [50..<250]"
proof -
  have h: "length (events scenarioBus) \<le> maxEvents \<and> length (scenarioInputs 250) = 250"
    by (simp add: scenarioBus_def scenarioInputs_def)
  note T = addEvent_log_and_delivery[where bus = scenarioBus and event = scenarioEvent
      and idNow = 1000 and rnd = "''abc123''" and tsNow = 1000 and world = "[]"
      and inputs = "scenarioInputs 250"]
  have ts: "map ev_timestamp (drop 50 (map enrichedEvent (scenarioInputs 250))) = map int [50..<250]"
    by (simp add: scenarioInputs_def drop_map enrichedEvent_def o_def)
  have id: "ev_id (fst (addEvent scenarioBus scenarioEvent 1000 ''abc123'' 1000 [])) = ''evt_1000_abc123''"
    by code_simp
  have w: "snd (snd (addEvent scenarioBus scenarioEvent 1000 ''abc123'' 1000 []))
     = [(''first'', ev_id (fst (addEvent scenarioBus scenarioEvent 1000 ''abc123'' 1000 []))),
        (''second'', ev_id (fst (addEvent scenarioBus scenarioEvent 1000 ''abc123'' 1000 [])))]"
    using T by (simp add: scenarioBus_def throwingSubscriber_def recordingSubscriber_def)
  from T h have ev: "events (fst (snd (publishAll scenarioBus (scenarioInputs 250) [])))
       = drop 50 (map enrichedEvent (scenarioInputs 250))"
     and len: "length (events (fst (snd (publishAll scenarioBus (scenarioInputs 250) [])))) = 200"
    by blast+
  have c: "map ev_timestamp (events (fst (snd (publishAll scenarioBus (scenarioInputs 250) []))))
       = map int [50..<250]"
    by (simp only: ev ts)
  have a: "snd (snd (addEvent scenarioBus scenarioEvent 1000 ''abc123'' 1000 []))
     = [(''first'', ''evt_1000_abc123''), (''second'', ''evt_1000_abc123'')]"
    by (simp only: w id)
  show ?thesis using a len c by blast
qed

section \<open>Template store: components and flat texts\<close>

lemma deriveStep_header:
  "dt_headerText (deriveStep r c) =
     (if tc_type c = HEADER \<and> truthyStr (tc_text c) \<noteq> None \<and> truthyStr (dt_headerText r) = None
      then tc_text c else dt_headerText r)"
  by (auto simp: deriveStep_def)

lemma deriveStep_body:
  "dt_bodyText (deriveStep r c) =
     (if tc_type c = BODY \<and> truthyStr (tc_text c) \<noteq> None \<and> truthyStr (dt_bodyText r) = None
      then tc_text c else dt_bodyText r)"
  by (auto simp: deriveStep_def)

lemma deriveStep_footer:
  "dt_footerText (deriveStep r c) =
     (if tc_type c = FOOTER \<and> truthyStr (tc_text c) \<noteq> None \<and> truthyStr (dt_footerText r) = None
      then tc_text c else dt_footerText r)"
  by (auto simp: deriveStep_def)

lemma firstTextOf_Cons:
  "firstTextOf ty (c # cs) =
     (if tc_type c = ty \<and> truthyStr (tc_text c) \<noteq> None then tc_text c else firstTextOf ty cs)"
  by (auto simp: firstTextOf_def)

lemma truthyStr_Some_arg: "truthyStr (Some v) = (if v = [] then None else Some v)"
  by (simp add: truthyStr_def)

lemma firstTextOf_Nil: "firstTextOf ty [] = None"
  by (simp add: firstTextOf_def)

lemma deriveStep_fold_header:
  "dt_headerText (foldl deriveStep r cs) =
     (if truthyStr (dt_headerText r) = None
      then (case firstTextOf HEADER cs of None \<Rightarrow> dt_headerText r | Some t \<Rightarrow> Some t)
      else dt_headerText r)"
proof (induction cs arbitrary: r)
  case Nil
  then show ?case by (simp add: firstTextOf_Nil)
next
  case (Cons c cs)
  show ?case
    unfolding foldl_Cons Cons.IH deriveStep_header firstTextOf_Cons
    by (cases "tc_text c") (auto simp: truthyStr_None split: option.splits)
qed

lemma deriveStep_fold_body:
  "dt_bodyText (foldl deriveStep r cs) =
     (if truthyStr (dt_bodyText r) = None
      then (case firstTextOf BODY cs of None \<Rightarrow> dt_bodyText r | Some t \<Rightarrow> Some t)
      else dt_bodyText r)"
proof (induction cs arbitrary: r)
  case Nil
  then show ?case by (simp add: firstTextOf_Nil)
next
  case (Cons c cs)
  show ?case
    unfolding foldl_Cons Cons.IH deriveStep_body firstTextOf_Cons
    by (cases "tc_text c") (auto simp: truthyStr_None split: option.splits)
qed

lemma deriveStep_fold_footer:
  "dt_footerText (foldl deriveStep r cs) =
     (if truthyStr (dt_footerText r) = None
      then (case firstTextOf FOOTER cs of None \<Rightarrow> dt_footerText r | Some t \<Rightarrow> Some t)
      else dt_footerText r)"
proof (induction cs arbitrary: r)
  case Nil
  then show ?case by (simp add: firstTextOf_Nil)
next
  case (Cons c cs)
  show ?case
    unfolding foldl_Cons Cons.IH deriveStep_footer firstTextOf_Cons
    by (cases "tc_text c") (auto simp: truthyStr_None split: option.splits)
qed

lemma derive_first_texts:
  "deriveTextFromComponents (Some cs) =
     \<lparr>dt_headerText = firstTextOf HEADER cs, dt_bodyText = firstTextOf BODY cs,
      dt_footerText = firstTextOf FOOTER cs\<rparr>"
proof -
  let ?r0 = "\<lparr>dt_headerText = None, dt_bodyText = None, dt_footerText = None\<rparr>"
  have "dt_headerText (foldl deriveStep ?r0 cs) = firstTextOf HEADER cs"
       "dt_bodyText (foldl deriveStep ?r0 cs) = firstTextOf BODY cs"
       "dt_footerText (foldl deriveStep ?r0 cs) = firstTextOf FOOTER cs"
    by (simp_all add: deriveStep_fold_header deriveStep_fold_body deriveStep_fold_footer
          truthyStr_None_arg split: option.splits)
  then show ?thesis
    by (simp add: deriveTextFromComponents_def Let_def DerivedText.equality)
qed


lemma derive_built:
  "deriveTextFromComponents (Some (buildComponentsFromText b h f)) =
     \<lparr>dt_headerText = truthyStr h, dt_bodyText = truthyStr b, dt_footerText = truthyStr f\<rparr>"
  unfolding derive_first_texts
  by (cases "truthyStr h"; cases "truthyStr b"; cases "truthyStr f")
     (auto simp: buildComponentsFromText_def firstTextOf_Cons firstTextOf_Nil truthyStr_Some
        truthyStr_Some_arg)

lemma built_nonempty: "truthyStr b \<noteq> None \<Longrightarrow> buildComponentsFromText b h f \<noteq> []"
  by (auto simp: buildComponentsFromText_def split: option.splits)

lemma firstTextOf_nonempty: "firstTextOf ty cs \<noteq> None \<Longrightarrow> cs \<noteq> []"
  by (auto simp: firstTextOf_Nil)

lemma firstTextOf_truthy: "truthyStr (firstTextOf ty cs) = firstTextOf ty cs"
  by (induction cs) (auto simp: firstTextOf_Cons firstTextOf_Nil truthyStr_def split: option.splits)

subsection \<open>Reading back\<close>

lemma ensureTemplateShape_texts:
  assumes "tpl_components tpl \<noteq> []" and "truthyStr (tpl_bodyText tpl) \<noteq> None"
  shows "tpl_components (fst (ensureTemplateShape templates tpl now)) = tpl_components tpl
       \<and> tpl_bodyText (fst (ensureTemplateShape templates tpl now)) = tpl_bodyText tpl
       \<and> tpl_headerText (fst (ensureTemplateShape templates tpl now)) =
           (if truthyStr (tpl_headerText tpl) = None
               \<and> firstTextOf HEADER (tpl_components tpl) \<noteq> None
            then firstTextOf HEADER (tpl_components tpl) else tpl_headerText tpl)
       \<and> tpl_footerText (fst (ensureTemplateShape templates tpl now)) =
           (if truthyStr (tpl_footerText tpl) = None
               \<and> firstTextOf FOOTER (tpl_components tpl) \<noteq> None
            then firstTextOf FOOTER (tpl_components tpl) else tpl_footerText tpl)
       \<and> tpl_id (fst (ensureTemplateShape templates tpl now)) = tpl_id tpl"
proof -
  from assms(2) obtain b where b: "truthyStr (tpl_bodyText tpl) = Some b" by auto
  show ?thesis
    using assms(1) b
    by (simp add: ensureTemplateShape_def Let_def derive_first_texts firstTextOf_truthy)
qed

lemma readBack_texts:
  assumes "\<not> isl r" and "snd (projr r) = templates(tpl_id (created r) \<mapsto> created r)"
      and "tpl_components (created r) \<noteq> []" and "truthyStr (tpl_bodyText (created r)) \<noteq> None"
      and "textsOf (created r) = deriveTextFromComponents (Some (tpl_components (created r)))
           \<or> deriveTextFromComponents (Some (tpl_components (created r)))
               = \<lparr>dt_headerText = truthyStr (tpl_headerText (created r)),
                  dt_bodyText = truthyStr (tpl_bodyText (created r)),
                  dt_footerText = truthyStr (tpl_footerText (created r))\<rparr>"
  shows "map_option tpl_components (readBack r now) = Some (tpl_components (created r))
       \<and> map_option textsOf (readBack r now) = Some (textsOf (created r))"
proof -
  let ?t = "created r"
  note E = ensureTemplateShape_texts[OF assms(3,4), of "snd (projr r)" now]
  have found: "readBack r now = Some (fst (ensureTemplateShape (snd (projr r)) ?t now))"
    by (simp add: readBack_def getTemplateById_def assms(2) split_beta Let_def)
  from assms(5) have hd: "tpl_headerText ?t = firstTextOf HEADER (tpl_components ?t)
                          \<or> firstTextOf HEADER (tpl_components ?t) = truthyStr (tpl_headerText ?t)"
    and ft: "tpl_footerText ?t = firstTextOf FOOTER (tpl_components ?t)
                          \<or> firstTextOf FOOTER (tpl_components ?t) = truthyStr (tpl_footerText ?t)"
    by (auto simp: derive_first_texts textsOf_def)
  have h: "\<not> (truthyStr (tpl_headerText ?t) = None \<and> firstTextOf HEADER (tpl_components ?t) \<noteq> None)"
    using hd firstTextOf_truthy[of HEADER "tpl_components ?t"] by metis
  have f: "\<not> (truthyStr (tpl_footerText ?t) = None \<and> firstTextOf FOOTER (tpl_components ?t) \<noteq> None)"
    using ft firstTextOf_truthy[of FOOTER "tpl_components ?t"] by metis
  show ?thesis
    unfolding found using E h f by (simp add: textsOf_def del: not_None_eq)
qed

lemma createTemplate_rejects:
  "truthyStr (case ct_bodyText input of
                Some b \<Rightarrow> Some b
              | None \<Rightarrow> dt_bodyText (deriveTextFromComponents (Some
                  (case ct_components input of
                     Some cs \<Rightarrow> cs
                   | None \<Rightarrow> buildComponentsFromText (ct_bodyText input) (ct_headerText input)
                               (ct_footerText input))))) = None \<Longrightarrow>
   createTemplate templates input idNow rnd now = Inl body_text_required"
  by (simp add: createTemplate_def Let_def)

lemma createTemplate_accepts:
  assumes "truthyStr (case ct_bodyText input of
                Some b \<Rightarrow> Some b
              | None \<Rightarrow> dt_bodyText (deriveTextFromComponents (Some
                  (case ct_components input of
                     Some cs \<Rightarrow> cs
                   | None \<Rightarrow> buildComponentsFromText (ct_bodyText input) (ct_headerText input)
                               (ct_footerText input))))) = Some b'"
  shows "\<not> isl (createTemplate templates input idNow rnd now)
       \<and> snd (projr (createTemplate templates input idNow rnd now))
           = templates(tpl_id (created (createTemplate templates input idNow rnd now))
                         \<mapsto> created (createTemplate templates input idNow rnd now))
       \<and> tpl_components (created (createTemplate templates input idNow rnd now))
           = (case ct_components input of
                Some cs \<Rightarrow> cs
              | None \<Rightarrow> buildComponentsFromText (ct_bodyText input) (ct_headerText input)
                          (ct_footerText input))
       \<and> textsOf (created (createTemplate templates input idNow rnd now))
           = (let derivedText = deriveTextFromComponents (Some
                  (case ct_components input of
                     Some cs \<Rightarrow> cs
                   | None \<Rightarrow> buildComponentsFromText (ct_bodyText input) (ct_headerText input)
                               (ct_footerText input)))
              in \<lparr>dt_headerText = (case ct_headerText input of Some h \<Rightarrow> Some h
                                    | None \<Rightarrow> dt_headerText derivedText),
                  dt_bodyText = (case ct_bodyText input of Some b \<Rightarrow> Some b
                                 | None \<Rightarrow> dt_bodyText derivedText),
                  dt_footerText = (case ct_footerText input of Some f \<Rightarrow> Some f
                                   | None \<Rightarrow> dt_footerText derivedText)\<rparr>)"
  using assms by (simp add: createTemplate_def Let_def created_def textsOf_def)

lemma create_from_components:
  assumes c: "ct_components input = Some cs"
      and b: "ct_bodyText input = None \<or> ct_bodyText input = firstTextOf BODY cs"
      and h: "ct_headerText input = None \<or> ct_headerText input = firstTextOf HEADER cs"
      and f: "ct_footerText input = None \<or> ct_footerText input = firstTextOf FOOTER cs"
  shows "(let r = createTemplate templates input idNow rnd now
          in if firstTextOf BODY cs = None then r = Inl body_text_required
             else \<not> isl r
                \<and> tpl_components (created r) = cs
                \<and> textsOf (created r) = deriveTextFromComponents (Some cs)
                \<and> tpl_bodyText (created r) = firstTextOf BODY cs
                \<and> map_option tpl_components (readBack r now') = Some cs
                \<and> map_option textsOf (readBack r now') = Some (deriveTextFromComponents (Some cs)))"
proof (cases "firstTextOf BODY cs")
  case None
  then have "ct_bodyText input = None" using b by auto
  then have "createTemplate templates input idNow rnd now = Inl body_text_required"
    using c None by (intro createTemplate_rejects) (simp add: derive_first_texts truthyStr_None_arg)
  then show ?thesis using None by (simp add: Let_def)
next
  case (Some t)
  let ?r = "createTemplate templates input idNow rnd now"
  have tr: "truthyStr (Some t) = Some t"
    using firstTextOf_truthy[of BODY cs] Some by simp
  have pre: "truthyStr (case ct_bodyText input of
                Some b \<Rightarrow> Some b
              | None \<Rightarrow> dt_bodyText (deriveTextFromComponents (Some
                  (case ct_components input of
                     Some cs \<Rightarrow> cs
                   | None \<Rightarrow> buildComponentsFromText (ct_bodyText input) (ct_headerText input)
                               (ct_footerText input))))) = Some t"
    using b c Some tr by (auto simp: derive_first_texts)
  note A = createTemplate_accepts[OF pre, of templates idNow rnd now]
  have comps: "tpl_components (created ?r) = cs" using A c by simp
  have T0: "textsOf (created ?r)
               = \<lparr>dt_headerText = (case ct_headerText input of Some h \<Rightarrow> Some h
                                     | None \<Rightarrow> firstTextOf HEADER cs),
                  dt_bodyText = (case ct_bodyText input of Some b \<Rightarrow> Some b
                                 | None \<Rightarrow> firstTextOf BODY cs),
                  dt_footerText = (case ct_footerText input of Some f \<Rightarrow> Some f
                                   | None \<Rightarrow> firstTextOf FOOTER cs)\<rparr>"
    using A c by (simp add: Let_def derive_first_texts split: option.splits)
  have hh: "(case ct_headerText input of Some h \<Rightarrow> Some h | None \<Rightarrow> firstTextOf HEADER cs)
              = firstTextOf HEADER cs"
    using h by (auto split: option.splits)
  have bb: "(case ct_bodyText input of Some b \<Rightarrow> Some b | None \<Rightarrow> firstTextOf BODY cs)
              = firstTextOf BODY cs"
    using b by (auto split: option.splits)
  have ff: "(case ct_footerText input of Some f \<Rightarrow> Some f | None \<Rightarrow> firstTextOf FOOTER cs)
              = firstTextOf FOOTER cs"
    using f by (auto split: option.splits)
  have texts: "textsOf (created ?r) = deriveTextFromComponents (Some cs)"
    unfolding T0 hh bb ff derive_first_texts ..
  have body: "tpl_bodyText (created ?r) = firstTextOf BODY cs"
    using texts by (simp add: textsOf_def derive_first_texts)
  have ne: "tpl_components (created ?r) \<noteq> []"
    using comps Some firstTextOf_nonempty[of BODY cs] by simp
  have bt: "truthyStr (tpl_bodyText (created ?r)) \<noteq> None"
    using body Some tr by simp
  have rb: "map_option tpl_components (readBack ?r now') = Some (tpl_components (created ?r))
       \<and> map_option textsOf (readBack ?r now') = Some (textsOf (created ?r))"
    using A texts comps ne bt by (intro readBack_texts[where templates = templates]) simp_all
  have nn: "firstTextOf BODY cs \<noteq> None" using Some by simp
  show ?thesis
    unfolding Let_def if_not_P[OF nn]
    using A[THEN conjunct1] comps texts body rb[unfolded comps texts] by blast
qed

lemma create_from_flat_text:
  assumes c: "ct_components input = None"
  shows "(let r = createTemplate templates input idNow rnd now;
              built = buildComponentsFromText (ct_bodyText input) (ct_headerText input)
                        (ct_footerText input)
          in if truthyStr (ct_bodyText input) = None then r = Inl body_text_required
             else \<not> isl r
                \<and> tpl_components (created r) = built
                \<and> textsOf (created r)
                    = \<lparr>dt_headerText = ct_headerText input, dt_bodyText = ct_bodyText input,
                       dt_footerText = ct_footerText input\<rparr>
                \<and> deriveTextFromComponents (Some built)
                    = \<lparr>dt_headerText = truthyStr (ct_headerText input),
                       dt_bodyText = ct_bodyText input,
                       dt_footerText = truthyStr (ct_footerText input)\<rparr>
                \<and> map_option tpl_components (readBack r now') = Some built
                \<and> map_option textsOf (readBack r now')
                    = Some \<lparr>dt_headerText = ct_headerText input, dt_bodyText = ct_bodyText input,
                            dt_footerText = ct_footerText input\<rparr>)"
proof (cases "truthyStr (ct_bodyText input)")
  case None
  then have "createTemplate templates input idNow rnd now = Inl body_text_required"
    using c by (intro createTemplate_rejects)
               (auto simp: derive_built truthyStr_None truthyStr_None_arg split: option.splits)
  then show ?thesis using None by (simp add: Let_def)
next
  case (Some t)
  let ?r = "createTemplate templates input idNow rnd now"
  let ?built = "buildComponentsFromText (ct_bodyText input) (ct_headerText input) (ct_footerText input) :: 'a TemplateComponent list"
  have bt: "ct_bodyText input = Some t" using Some by (simp add: truthyStr_Some)
  have pre: "truthyStr (case ct_bodyText input of
                Some b \<Rightarrow> Some b
              | None \<Rightarrow> dt_bodyText (deriveTextFromComponents (Some
                  (case ct_components input of
                     Some cs \<Rightarrow> (cs :: 'a TemplateComponent list)
                   | None \<Rightarrow> buildComponentsFromText (ct_bodyText input) (ct_headerText input)
                               (ct_footerText input))))) = Some t"
    using Some bt by simp
  note A = createTemplate_accepts[OF pre, of templates idNow rnd now]
  have comps: "tpl_components (created ?r) = ?built" using A c by simp
  have texts: "textsOf (created ?r)
                 = \<lparr>dt_headerText = ct_headerText input, dt_bodyText = ct_bodyText input,
                    dt_footerText = ct_footerText input\<rparr>"
    using A c bt by (auto simp: Let_def derive_built truthyStr_None_arg split: option.splits)
  have der: "deriveTextFromComponents (Some ?built)
                    = \<lparr>dt_headerText = truthyStr (ct_headerText input),
                       dt_bodyText = ct_bodyText input,
                       dt_footerText = truthyStr (ct_footerText input)\<rparr>"
    using Some bt by (simp add: derive_built)
  have ne: "tpl_components (created ?r) \<noteq> []"
    unfolding comps using Some by (intro built_nonempty) simp
  have btr: "truthyStr (tpl_bodyText (created ?r)) \<noteq> None"
    using texts Some by (simp add: textsOf_def)
  have shape: "deriveTextFromComponents (Some (tpl_components (created ?r)))
               = \<lparr>dt_headerText = truthyStr (tpl_headerText (created ?r)),
                  dt_bodyText = truthyStr (tpl_bodyText (created ?r)),
                  dt_footerText = truthyStr (tpl_footerText (created ?r))\<rparr>"
    using texts by (simp add: comps derive_built textsOf_def)
  have rb: "map_option tpl_components (readBack ?r now') = Some (tpl_components (created ?r))
       \<and> map_option textsOf (readBack ?r now') = Some (textsOf (created ?r))"
    using A ne btr shape by (intro readBack_texts[where templates = templates]) simp_all
  have nn: "truthyStr (ct_bodyText input) \<noteq> None" using Some by simp
  show ?thesis
    unfolding Let_def if_not_P[OF nn]
    using A[THEN conjunct1] comps texts der rb[unfolded comps texts] by blast
qed

text \<open>
  Claim C9, as amended. A template created from a components list, with no flat text
  supplied beside it (or only flat texts equal to the ones the components give), is
  accepted exactly when some BODY component has a non-empty text; its stored components
  are the list given, and its stored header, body and footer texts are the ones derived
  from them, each the text of the first component of its type that has a non-empty text.
  A template created from flat texts alone is accepted exactly when the body text is not
  empty; its components are built from the non-empty texts, so that the texts derived
  from them are the supplied ones, an empty header or footer counting as absent, and its
  stored flat texts are the supplied ones. Reading either template back by id returns the
  same components and texts.
\<close>

theorem template_text_round_trip:
  "(ct_components input = Some cs
      \<and> (ct_bodyText input = None \<or> ct_bodyText input = firstTextOf BODY cs)
      \<and> (ct_headerText input = None \<or> ct_headerText input = firstTextOf HEADER cs)
      \<and> (ct_footerText input = None \<or> ct_footerText input = firstTextOf FOOTER cs) \<longrightarrow>
      (let r = createTemplate templates input idNow rnd now
       in if firstTextOf BODY cs = None then r = Inl body_text_required
          else \<not> isl r
             \<and> tpl_components (created r) = cs
             \<and> textsOf (created r) = deriveTextFromComponents (Some cs)
             \<and> tpl_bodyText (created r) = firstTextOf BODY cs
             \<and> map_option tpl_components (readBack r now') = Some cs
             \<and> map_option textsOf (readBack r now') = Some (deriveTextFromComponents (Some cs))))
 \<and> (ct_components input = None \<longrightarrow>
      (let r = createTemplate templates input idNow rnd now;
           built = buildComponentsFromText (ct_bodyText input) (ct_headerText input)
                     (ct_footerText input)
       in if truthyStr (ct_bodyText input) = None then r = Inl body_text_required
          else \<not> isl r
             \<and> tpl_components (created r) = built
             \<and> textsOf (created r)
                 = \<lparr>dt_headerText = ct_headerText input, dt_bodyText = ct_bodyText input,
                    dt_footerText = ct_footerText input\<rparr>
             \<and> deriveTextFromComponents (Some built)
                 = \<lparr>dt_headerText = truthyStr (ct_headerText input),
                    dt_bodyText = ct_bodyText input,
                    dt_footerText = truthyStr (ct_footerText input)\<rparr>
             \<and> map_option tpl_components (readBack r now') = Some built
             \<and> map_option textsOf (readBack r now')
                 = Some \<lparr>dt_headerText = ct_headerText input, dt_bodyText = ct_bodyText input,
                         dt_footerText = ct_footerText input\<rparr>))
 \<and> deriveTextFromComponents (Some cs)
      = \<lparr>dt_headerText = firstTextOf HEADER cs, dt_bodyText = firstTextOf BODY cs,
         dt_footerText = firstTextOf FOOTER cs\<rparr>"
proof (intro conjI impI)
  assume a: "ct_components input = Some cs
      \<and> (ct_bodyText input = None \<or> ct_bodyText input = firstTextOf BODY cs)
      \<and> (ct_headerText input = None \<or> ct_headerText input = firstTextOf HEADER cs)
      \<and> (ct_footerText input = None \<or> ct_footerText input = firstTextOf FOOTER cs)"
  show "(let r = createTemplate templates input idNow rnd now
       in if firstTextOf BODY cs = None then r = Inl body_text_required
          else \<not> isl r
             \<and> tpl_components (created r) = cs
             \<and> textsOf (created r) = deriveTextFromComponents (Some cs)
             \<and> tpl_bodyText (created r) = firstTextOf BODY cs
             \<and> map_option tpl_components (readBack r now') = Some cs
             \<and> map_option textsOf (readBack r now') = Some (deriveTextFromComponents (Some cs)))"
    by (rule create_from_components) (use a in blast)+
next
  assume "ct_components input = None"
  then show "(let r = createTemplate templates input idNow rnd now;
           built = buildComponentsFromText (ct_bodyText input) (ct_headerText input)
                     (ct_footerText input)
       in if truthyStr (ct_bodyText input) = None then r = Inl body_text_required
          else \<not> isl r
             \<and> tpl_components (created r) = built
             \<and> textsOf (created r)
                 = \<lparr>dt_headerText = ct_headerText input, dt_bodyText = ct_bodyText input,
                    dt_footerText = ct_footerText input\<rparr>
             \<and> deriveTextFromComponents (Some built)
                 = \<lparr>dt_headerText = truthyStr (ct_headerText input),
                    dt_bodyText = ct_bodyText input,
                    dt_footerText = truthyStr (ct_footerText input)\<rparr>
             \<and> map_option tpl_components (readBack r now') = Some built
             \<and> map_option textsOf (readBack r now')
                 = Some \<lparr>dt_headerText = ct_headerText input, dt_bodyText = ct_bodyText input,
                         dt_footerText = ct_footerText input\<rparr>)"
    by (rule create_from_flat_text)
next
  show "deriveTextFromComponents (Some cs)
      = \<lparr>dt_headerText = firstTextOf HEADER cs, dt_bodyText = firstTextOf BODY cs,
         dt_footerText = firstTextOf FOOTER cs\<rparr>"
    by (rule derive_first_texts)
qed

lemma template_fixture:
  "firstTextOf BODY structuredComponents = Some ''Hi {{1}}''
   \<and> firstTextOf HEADER structuredComponents = Some ''Hello''
   \<and> firstTextOf FOOTER structuredComponents = None
   \<and> (buildComponentsFromText (Some ''Hi'') None None :: unit TemplateComponent list)
       = [textComponent BODY ''Hi'']
   \<and> truthyStr (Some ''Hi'') = Some ''Hi''"
  by code_simp

theorem template_text_round_trip_witness:
  "textsOf (created (createFrom (templateInput None None (Some structuredComponents))))
     = \<lparr>dt_headerText = Some ''Hello'', dt_bodyText = Some ''Hi {{1}}'', dt_footerText = None\<rparr>
   \<and> map_option tpl_components (readBack (createFrom (templateInput None None (Some structuredComponents))) 2000)
     = Some structuredComponents
   \<and> map_option textsOf (readBack (createFrom (templateInput None None (Some structuredComponents))) 2000)
     = Some \<lparr>dt_headerText = Some ''Hello'', dt_bodyText = Some ''Hi {{1}}'', dt_footerText = None\<rparr>
   \<and> tpl_components (created (createFrom (templateInput (Some ''Hi'') None None)))
     = [textComponent BODY ''Hi'']
   \<and> textsOf (created (createFrom (templateInput (Some ''Hi'') None None)))
     = \<lparr>dt_headerText = None, dt_bodyText = Some ''Hi'', dt_footerText = None\<rparr>"
proof -
  note A = template_text_round_trip[where input = "templateInput None None (Some structuredComponents)"
      and cs = structuredComponents and templates = Map.empty and idNow = 1000
      and rnd = "''abc123''" and now = 1000 and now' = 2000, THEN conjunct1]
  note B = template_text_round_trip[where input = "templateInput (Some ''Hi'') None None"
      and templates = "Map.empty :: unit Templates" and idNow = 1000
      and rnd = "''abc123''" and now = 1000 and now' = 2000, THEN conjunct2, THEN conjunct1]
  note D = template_text_round_trip[where cs = structuredComponents, THEN conjunct2, THEN conjunct2]
  have a: "textsOf (created (createFrom (templateInput None None (Some structuredComponents))))
             = deriveTextFromComponents (Some structuredComponents)
         \<and> map_option tpl_components (readBack (createFrom (templateInput None None (Some structuredComponents))) 2000)
             = Some structuredComponents
         \<and> map_option textsOf (readBack (createFrom (templateInput None None (Some structuredComponents))) 2000)
             = Some (deriveTextFromComponents (Some structuredComponents))"
    using A template_fixture by (simp add: templateInput_def createFrom_def Let_def)
  have b: "tpl_components (created (createFrom (templateInput (Some ''Hi'') None None)))
             = [textComponent BODY ''Hi'']
         \<and> textsOf (created (createFrom (templateInput (Some ''Hi'') None None)))
             = \<lparr>dt_headerText = None, dt_bodyText = Some ''Hi'', dt_footerText = None\<rparr>"
    using B template_fixture by (simp add: templateInput_def createFrom_def Let_def)
  have d: "deriveTextFromComponents (Some structuredComponents)
             = \<lparr>dt_headerText = Some ''Hello'', dt_bodyText = Some ''Hi {{1}}'', dt_footerText = None\<rparr>"
    using D template_fixture by simp
  show ?thesis using a b unfolding d by blast
qed

text \<open>
  The claim as stated fails in three places. With components and a different flat body
  text, the stored body text is the flat one (\<open>Bye\<close>) while the components derive
  \<open>Hi\<close>, also after reading back. With an empty header text supplied flat, the stored
  header is the empty string while no header is derived from the components. With a
  first BODY component of empty text, the stored body text is the second one's.
\<close>

theorem template_text_counterexample:
  "tpl_bodyText (created (createFrom
       (templateInput (Some ''Bye'') None (Some [textComponent BODY ''Hi''])))) = Some ''Bye''
   \<and> dt_bodyText (deriveTextFromComponents (Some (tpl_components (created (createFrom
       (templateInput (Some ''Bye'') None (Some [textComponent BODY ''Hi''])))))))
     = Some ''Hi''
   \<and> map_option tpl_bodyText (readBack (createFrom
       (templateInput (Some ''Bye'') None (Some [textComponent BODY ''Hi'']))) 2000)
     = Some (Some ''Bye'')
   \<and> tpl_headerText (created (createFrom (templateInput (Some ''Hi'') (Some []) None)))
     = Some []
   \<and> dt_headerText (deriveTextFromComponents (Some (tpl_components (created (createFrom
       (templateInput (Some ''Hi'') (Some []) None)))))) = None
   \<and> tpl_bodyText (created (createFrom
       (templateInput None None (Some [textComponent BODY [], textComponent BODY ''Hi''])))) = Some ''Hi''
   \<and> map tc_type (tpl_components (created (createFrom
       (templateInput None None (Some [textComponent BODY [], textComponent BODY ''Hi''])))))
     = [BODY, BODY]
   \<and> map tc_text (tpl_components (created (createFrom
       (templateInput None None (Some [textComponent BODY [], textComponent BODY ''Hi''])))))
     = [Some [], Some ''Hi'']"
  by code_simp

end
